theory Spec2Isabelle
  imports Complex_Main "HOL-Library.Log_Nat"
begin

section \<open>JavaScript values\<close>

text \<open>
  The upload handlers (\<^verbatim>\<open>src/app/api/upload/route.ts\<close> and the second handler in
  \<^verbatim>\<open>src/unnamed/part_000\<close>) work on untyped spreadsheet cells. A cell is a JavaScript
  value. A number is NaN, an infinity or a finite double, which is modelled by the rational
  it denotes; the sign of zero is not kept (no operation of the handlers tells \<open>-0\<close> from
  \<open>0\<close>).
\<close>

datatype jsnum = NaN | Infinite bool | Finite rat
  \<comment> \<open>\<open>Infinite True\<close> is \<open>+Infinity\<close>, \<open>Infinite False\<close> is \<open>-Infinity\<close>\<close>

datatype jsdate = InvalidDate | ValidDate int
  \<comment> \<open>a \<^verbatim>\<open>Date\<close>: its time value in ms since 1970-01-01T00:00Z, or NaN\<close>

datatype jsval =
    JUndefined
  | JNull
  | JBool bool
  | JNumber jsnum
  | JString string
  | JDate jsdate

text \<open>\<^verbatim>\<open>if (v)\<close>, \<^verbatim>\<open>!v\<close>, \<^verbatim>\<open>v || w\<close>: ToBoolean.\<close>

fun truthy :: "jsval \<Rightarrow> bool" where
  "truthy JUndefined = False"
| "truthy JNull = False"
| "truthy (JBool b) = b"
| "truthy (JNumber NaN) = False"
| "truthy (JNumber (Infinite s)) = True"
| "truthy (JNumber (Finite x)) = (x \<noteq> 0)"
| "truthy (JString s) = (s \<noteq> [])"
| "truthy (JDate d) = True"

definition isNaN :: "jsnum \<Rightarrow> bool" where
  "isNaN n = (n = NaN)"

text \<open>
  The arithmetic of JavaScript is that of IEEE 754 doubles: the exact result is rounded to
  the nearest double, a tie going to the double with the even significand, and a result
  beyond the largest double becomes an infinity. A double is a whole multiple of its unit
  in the last place, \<open>2^(e - 52)\<close> for a number in \<open>[2^e, 2^(e + 1))\<close> and \<open>2^(-1074)\<close> below
  \<open>2^(-1022)\<close>.
\<close>

definition pow2 :: "int \<Rightarrow> rat" where
  \<comment> \<open>\<open>2^k\<close> for a whole number \<open>k\<close>\<close>
  "pow2 k = (if 0 \<le> k then of_int (2 ^ nat k) else 1 / of_int (2 ^ nat (- k)))"

definition floorLog2 :: "rat \<Rightarrow> int" where
  \<comment> \<open>for \<open>x > 0\<close>, the \<open>e\<close> with \<open>2^e \<le> x < 2^(e + 1)\<close>: the numerator and the denominator
      of \<open>x\<close> have \<open>bitlen\<close> binary digits, so \<open>e\<close> is the difference \<open>k\<close> of the two or \<open>k - 1\<close>\<close>
  "floorLog2 x =
     (let k = bitlen (fst (quotient_of x)) - bitlen (snd (quotient_of x))
      in if pow2 k \<le> x then k else k - 1)"

definition roundHalfEven :: "rat \<Rightarrow> int" where
  "roundHalfEven r =
     (let f = \<lfloor>r\<rfloor>; d = r - of_int f
      in if d < 1 / 2 then f else if 1 / 2 < d then f + 1 else if even f then f else f + 1)"

definition roundDouble :: "rat \<Rightarrow> jsnum" where
  "roundDouble x =
     (if x = 0 then Finite 0
      else let e = max (floorLog2 \<bar>x\<bar>) (- 1022);
               ulp = pow2 (e - 52);
               y = of_int (roundHalfEven (x / ulp)) * ulp
           in if pow2 1024 \<le> \<bar>y\<bar> then Infinite (0 < x) else Finite y)"

text \<open>\<^verbatim>\<open>a + b\<close> and \<^verbatim>\<open>a * b\<close> on numbers.\<close>

fun jsAdd :: "jsnum \<Rightarrow> jsnum \<Rightarrow> jsnum" where
  "jsAdd (Finite a) (Finite b) = roundDouble (a + b)"
| "jsAdd (Finite a) (Infinite s) = Infinite s"
| "jsAdd (Infinite s) (Finite b) = Infinite s"
| "jsAdd (Infinite s) (Infinite t) = (if s = t then Infinite s else NaN)"
| "jsAdd _ _ = NaN"

fun jsMul :: "jsnum \<Rightarrow> jsnum \<Rightarrow> jsnum" where
  "jsMul (Finite a) (Finite b) = roundDouble (a * b)"
| "jsMul (Finite a) (Infinite s) = (if a = 0 then NaN else Infinite (s = (0 < a)))"
| "jsMul (Infinite s) (Finite b) = (if b = 0 then NaN else Infinite (s = (0 < b)))"
| "jsMul (Infinite s) (Infinite t) = Infinite (s = t)"
| "jsMul _ _ = NaN"

text \<open>\<^verbatim>\<open>x || 0\<close> on a number.\<close>

fun orZero :: "jsnum \<Rightarrow> jsnum" where
  "orZero NaN = Finite 0"
| "orZero (Infinite s) = Infinite s"
| "orZero (Finite x) = Finite x"

section \<open>Dates of the platform\<close>

text \<open>
  What the handlers use of \<^verbatim>\<open>Date\<close>: the constructor on a number (TimeClip: a time value
  beyond \<open>8.64e15\<close> ms is an Invalid Date, a fraction is cut towards zero), the
  constructor on year, month index and day in local time, \<^verbatim>\<open>getTime\<close>,
  \<^verbatim>\<open>getFullYear\<close> and \<^verbatim>\<open>getMonth\<close> in local time, and \<^verbatim>\<open>toISOString\<close> in UTC.
  The calendar is the proleptic Gregorian one, computed from the day number by era
  (400 years, 146097 days).

  The host decides the rest, which are parameters. Its time zone is the function
  \<open>LocalTZA(t, isUTC)\<close> of the language definition: the offset of local time from UTC in
  ms, at the UTC time value \<open>t\<close> when \<open>isUTC\<close> holds and at the local time value \<open>t\<close>
  otherwise; it may differ from one date to another (daylight saving, a change of the
  zone's standard time). The other parameters are how \<^verbatim>\<open>new Date(string)\<close> parses a text,
  how \<^verbatim>\<open>String(date)\<close> prints, and \<^verbatim>\<open>toLowerCase\<close> on a text.
\<close>

record platform =
  localTZA :: "int \<Rightarrow> bool \<Rightarrow> int"
  dateParse :: "string \<Rightarrow> jsdate"
  dateToString :: "jsdate \<Rightarrow> string"
  toLowerCase :: "string \<Rightarrow> string"

definition msPerDay :: int where
  "msPerDay = 86400000"

definition daysFromCivil :: "int \<Rightarrow> int \<Rightarrow> int \<Rightarrow> int" where
  \<comment> \<open>year, month 1..12, day of month; the day number, 0 at 1970-01-01\<close>
  "daysFromCivil y m d =
     (let y1 = (if m \<le> 2 then y - 1 else y);
          era = y1 div 400;
          yoe = y1 - era * 400;
          doy = (153 * (if m > 2 then m - 3 else m + 9) + 2) div 5 + d - 1;
          doe = yoe * 365 + yoe div 4 - yoe div 100 + doy
      in era * 146097 + doe - 719468)"

definition civilFromDays :: "int \<Rightarrow> int \<times> int \<times> int" where
  \<comment> \<open>the day number to (year, month 1..12, day of month)\<close>
  "civilFromDays z =
     (let z1 = z + 719468;
          era = z1 div 146097;
          doe = z1 - era * 146097;
          yoe = (doe - doe div 1460 + doe div 36524 - doe div 146096) div 365;
          doy = doe - (365 * yoe + yoe div 4 - yoe div 100);
          mp = (5 * doy + 2) div 153;
          d = doy - (153 * mp + 2) div 5 + 1;
          m = (if mp < 10 then mp + 3 else mp - 9);
          y = yoe + era * 400
      in (if m \<le> 2 then y + 1 else y, m, d))"

definition truncNumber :: "rat \<Rightarrow> int" where
  "truncNumber x = (if 0 \<le> x then \<lfloor>x\<rfloor> else \<lceil>x\<rceil>)"

text \<open>\<^verbatim>\<open>new Date(n)\<close> for a number \<^verbatim>\<open>n\<close>.\<close>

definition newDateNumber :: "jsnum \<Rightarrow> jsdate" where
  "newDateNumber n =
     (case n of
        NaN \<Rightarrow> InvalidDate
      | Infinite s \<Rightarrow> InvalidDate
      | Finite x \<Rightarrow> if \<bar>x\<bar> > 8640000000000000 then InvalidDate else ValidDate (truncNumber x))"

text \<open>
  \<^verbatim>\<open>new Date(y, monthIndex, d)\<close>, for a month index 0..11 and a day of that month: midnight
  of that day in local time, that is \<open>UTC(t) = t - LocalTZA(t, false)\<close> for the local time
  value \<open>t\<close> of that midnight. A year 0..99 stands for 1900 + y.
\<close>

definition newDateLocal :: "platform \<Rightarrow> int \<Rightarrow> int \<Rightarrow> int \<Rightarrow> jsdate" where
  "newDateLocal p y monthIndex d =
     (let fullYear = (if 0 \<le> y \<and> y \<le> 99 then 1900 + y else y);
          t = daysFromCivil fullYear (monthIndex + 1) d * msPerDay
      in newDateNumber (Finite (of_int (t - localTZA p t False))))"

fun getTime :: "jsdate \<Rightarrow> jsnum" where
  "getTime InvalidDate = NaN"
| "getTime (ValidDate t) = Finite (of_int t)"

definition localDate :: "platform \<Rightarrow> int \<Rightarrow> int \<times> int \<times> int" where
  \<comment> \<open>the calendar date, in local time, of a time value: that of \<open>t + LocalTZA(t, true)\<close>\<close>
  "localDate p t = civilFromDays ((t + localTZA p t True) div msPerDay)"

definition getFullYear :: "platform \<Rightarrow> int \<Rightarrow> int" where
  "getFullYear p t = fst (localDate p t)"

definition getMonth :: "platform \<Rightarrow> int \<Rightarrow> int" where
  \<comment> \<open>the month index, 0..11\<close>
  "getMonth p t = fst (snd (localDate p t)) - 1"

section \<open>Date coercion of a numeric cell\<close>

text \<open>
  \<^verbatim>\<open>part_000\<close>, lines 11-18:
  \<^verbatim>\<open>
  function parseDate(value: string | number): Date {
    if (typeof value === 'number') {
      const excelEpoch = new Date(1899, 11, 30);
      return new Date(excelEpoch.getTime() + value * 86400000);
    }
    return new Date(value);
  }
  \<close>
  The same two lines are the numeric branch of every date column of \<^verbatim>\<open>route.ts\<close>
  (lines 136-139, 165-167, 191-193) and of \<^verbatim>\<open>parseDateValue\<close> (\<^verbatim>\<open>part_000\<close>, 162-165).
\<close>

definition excelEpoch :: "platform \<Rightarrow> jsdate" where
  "excelEpoch p = newDateLocal p 1899 11 30"

definition serialToDate :: "platform \<Rightarrow> jsnum \<Rightarrow> jsdate" where
  "serialToDate p n = newDateNumber (jsAdd (getTime (excelEpoch p)) (jsMul n (Finite 86400000)))"

text \<open>\<^verbatim>\<open>new Date(value)\<close> on a value that is not a number.\<close>

fun newDateValue :: "platform \<Rightarrow> jsval \<Rightarrow> jsdate" where
  "newDateValue p (JString s) = dateParse p s"
| "newDateValue p (JDate d) = d"
| "newDateValue p (JNumber n) = newDateNumber n"
| "newDateValue p (JBool b) = newDateNumber (Finite (if b then 1 else 0))"
| "newDateValue p JNull = newDateNumber (Finite 0)"
| "newDateValue p JUndefined = InvalidDate"

definition parseDate :: "platform \<Rightarrow> jsval \<Rightarrow> jsdate" where
  "parseDate p v = (case v of JNumber n \<Rightarrow> serialToDate p n | _ \<Rightarrow> newDateValue p v)"

section \<open>Text of numbers and dates\<close>

definition digitChar :: "nat \<Rightarrow> char" where
  "digitChar n = ''0123456789'' ! (n mod 10)"

text \<open>\<^verbatim>\<open>String(n)\<close> for a natural number, as in \<^verbatim>\<open>`Row ${rowNum}`\<close>.\<close>

function showNat :: "nat \<Rightarrow> string" where
  "showNat n = (if n < 10 then [digitChar n] else showNat (n div 10) @ [digitChar n])"
  by pat_completeness auto
termination
  by (relation "measure id") auto

declare showNat.simps [simp del]

definition pad :: "nat \<Rightarrow> string \<Rightarrow> string" where
  "pad w s = replicate (w - length s) (CHR ''0'') @ s"

text \<open>
  \<^verbatim>\<open>toISOString()\<close> of a valid date: \<^verbatim>\<open>YYYY-MM-DDTHH:mm:ss.sssZ\<close> in UTC, the year with a
  sign and six digits outside 0..9999. \<^verbatim>\<open>.split('T')[0]\<close> keeps what is before the T.
\<close>

definition isoYear :: "int \<Rightarrow> string" where
  "isoYear y =
     (if 0 \<le> y \<and> y \<le> 9999 then pad 4 (showNat (nat y))
      else (if y < 0 then ''-'' else ''+'') @ pad 6 (showNat (nat \<bar>y\<bar>)))"

definition toISOString :: "int \<Rightarrow> string" where
  "toISOString t =
     (let (y, m, d) = civilFromDays (t div msPerDay);
          ms = nat (t mod msPerDay)
      in isoYear y @ ''-'' @ pad 2 (showNat (nat m)) @ ''-'' @ pad 2 (showNat (nat d)) @ ''T''
         @ pad 2 (showNat (ms div 3600000)) @ '':'' @ pad 2 (showNat (ms div 60000 mod 60)) @ '':''
         @ pad 2 (showNat (ms div 1000 mod 60)) @ ''.'' @ pad 3 (showNat (ms mod 1000)) @ ''Z'')"

definition splitT0 :: "string \<Rightarrow> string" where
  "splitT0 s = takeWhile (\<lambda>c. c \<noteq> CHR ''T'') s"

section \<open>Numeric coercion\<close>

text \<open>
  Both handlers strip every character outside \<^verbatim>\<open>[0-9.-]\<close> before \<^verbatim>\<open>parseFloat\<close>, so
  \<^verbatim>\<open>parseFloat\<close> is only ever applied to texts over that alphabet. There its grammar is:
  an optional \<^verbatim>\<open>-\<close>, then digits with an optional \<^verbatim>\<open>.\<close> and digits, or \<^verbatim>\<open>.\<close> and digits;
  the longest such prefix is read, as the double nearest to the decimal number it writes,
  and a text with no such prefix gives NaN. (Exponents, \<^verbatim>\<open>Infinity\<close>, \<^verbatim>\<open>+\<close> and leading
  blanks need characters that were stripped.)
\<close>

definition isDigit :: "char \<Rightarrow> bool" where
  "isDigit c = (c \<in> set ''0123456789'')"

definition digitsValue :: "string \<Rightarrow> nat" where
  "digitsValue ds = foldl (\<lambda>a c. 10 * a + (of_char c - 48)) 0 ds"

definition parseFloat :: "string \<Rightarrow> jsnum" where
  "parseFloat s =
     (let neg = (case s of c # r \<Rightarrow> c = CHR ''-'' | [] \<Rightarrow> False);
          r = (if neg then tl s else s);
          ip = takeWhile isDigit r;
          r1 = dropWhile isDigit r;
          fp = (case r1 of c # r2 \<Rightarrow> if c = CHR ''.'' then takeWhile isDigit r2 else [] | [] \<Rightarrow> [])
      in if ip = [] \<and> fp = [] then NaN
         else roundDouble ((if neg then - 1 else 1)
                * (of_nat (digitsValue ip) + of_nat (digitsValue fp) / 10 ^ length fp)))"

text \<open>\<^verbatim>\<open>value.replace(/[^0-9.-]/g, '')\<close> and \<^verbatim>\<open>.replace(/[^\d.-]/g, '')\<close>.\<close>

definition stripNonNumeric :: "string \<Rightarrow> string" where
  "stripNonNumeric s = filter (\<lambda>c. c \<in> set ''0123456789.-'') s"

text \<open>
  \<^verbatim>\<open>route.ts\<close>, lines 211-215:
  \<^verbatim>\<open>
  const parseNumber = (value: any): number | null => {
    if (value === null || value === undefined || value === '') return null;
    const num = typeof value === 'string' ? parseFloat(value.replace(/[^0-9.-]/g, '')) : parseFloat(value);
    return isNaN(num) ? null : num;
  };
  \<close>
  \<open>parsedNumber\<close> is \<^verbatim>\<open>num\<close>. \<^verbatim>\<open>parseFloat(value)\<close> on a value that is not a string reads
  \<^verbatim>\<open>String(value)\<close>: a number reads back as itself, the text of a boolean or of a date
  starts with a letter.
\<close>

fun parsedNumber :: "jsval \<Rightarrow> jsnum" where
  "parsedNumber (JString s) = parseFloat (stripNonNumeric s)"
| "parsedNumber (JNumber n) = n"
| "parsedNumber v = NaN"

definition parseNumber :: "jsval \<Rightarrow> jsval" where
  "parseNumber v =
     (if v = JNull \<or> v = JUndefined \<or> v = JString [] then JNull
      else let num = parsedNumber v
           in if isNaN num then JNull else JNumber num)"

text \<open>
  \<^verbatim>\<open>part_000\<close>, lines 20-24, and its use on a numeric column, lines 298-299:
  \<^verbatim>\<open>
  function parseNumber(value: string | number): number {
    if (typeof value === 'number') return value;
    const cleaned = String(value).replace(/[^\d.-]/g, '');
    return parseFloat(cleaned) || 0;
  }
  ...
  const numValue = parseNumber(value);
  dbRow[dbCol] = isNaN(numValue) ? null : numValue;
  \<close>
  The value comes from \<^verbatim>\<open>getValue\<close> and may be any cell, also null.
\<close>

definition cleaned :: "string \<Rightarrow> jsnum" where
  "cleaned text = orZero (parseFloat (stripNonNumeric text))"

fun parseNumber_part000 :: "platform \<Rightarrow> jsval \<Rightarrow> jsnum" where
  "parseNumber_part000 p (JNumber n) = n"
| "parseNumber_part000 p (JString s) = cleaned s"
| "parseNumber_part000 p JNull = cleaned ''null''"
| "parseNumber_part000 p JUndefined = cleaned ''undefined''"
| "parseNumber_part000 p (JBool b) = cleaned (if b then ''true'' else ''false'')"
| "parseNumber_part000 p (JDate d) = cleaned (dateToString p d)"

definition numericColumn_part000 :: "platform \<Rightarrow> jsval \<Rightarrow> jsval" where
  "numericColumn_part000 p v =
     (let numValue = parseNumber_part000 p v in if isNaN numValue then JNull else JNumber numValue)"

section \<open>Date coercion at the transformer's interface\<close>

text \<open>
  \<^verbatim>\<open>part_000\<close>, lines 159-168:
  \<^verbatim>\<open>
  const parseDateValue = (value: any): Date | null => {
    if (!value) return null;
    if (value instanceof Date) return value;
    if (typeof value === 'number') {
      const excelEpoch = new Date(1899, 11, 30);
      return new Date(excelEpoch.getTime() + value * 86400000);
    }
    const date = new Date(value);
    return isNaN(date.getTime()) ? null : date;
  };
  \<close>
\<close>

definition parseDateValue :: "platform \<Rightarrow> jsval \<Rightarrow> jsdate option" where
  "parseDateValue p v =
     (if \<not> truthy v then None
      else case v of
        JDate d \<Rightarrow> Some d
      | JNumber n \<Rightarrow> Some (serialToDate p n)
      | _ \<Rightarrow> (let date = newDateValue p v in if isNaN (getTime date) then None else Some date))"

text \<open>
  \<^verbatim>\<open>route.ts\<close>, lines 131-156 (invoice date), and with the same body 160-182 (due date)
  and 186-208 (created date):
  \<^verbatim>\<open>
  if (row['Invoice date']) {
    try {
      const dateValue = row['Invoice date'];
      let parsedDate: Date;
      if (typeof dateValue === 'number') {
        const excelEpoch = new Date(1899, 11, 30);
        parsedDate = new Date(excelEpoch.getTime() + dateValue * 86400000);
      } else if (typeof dateValue === 'string') {
        parsedDate = new Date(dateValue);
      } else if (dateValue instanceof Date) {
        parsedDate = dateValue;
      } else {
        throw new Error('Invalid date type');
      }
      if (!isNaN(parsedDate.getTime())) {
        invoiceDate = parsedDate.toISOString().split('T')[0];
        year = parsedDate.getFullYear();
        quarter = `Q${Math.floor(parsedDate.getMonth() / 3) + 1}`;
      }
    } catch (dateError) { console.warn(...); }
  }
  \<close>
  \<open>parsedDate\<close> is the date the branches assign, \<open>None\<close> where they throw; \<open>coerceDate\<close> is the
  whole block: the date that passes both guards, otherwise nothing (the three results stay
  null).
\<close>

definition parsedDate :: "platform \<Rightarrow> jsval \<Rightarrow> jsdate option" where
  "parsedDate p dateValue =
     (case dateValue of
        JNumber n \<Rightarrow> Some (serialToDate p n)
      | JString s \<Rightarrow> Some (dateParse p s)
      | JDate d \<Rightarrow> Some d
      | _ \<Rightarrow> None)"

definition coerceDate :: "platform \<Rightarrow> jsval \<Rightarrow> int option" where
  "coerceDate p v =
     (if truthy v then
        (case parsedDate p v of
           None \<Rightarrow> None
         | Some InvalidDate \<Rightarrow> None
         | Some (ValidDate t) \<Rightarrow> Some t)
      else None)"

definition quarterOf :: "platform \<Rightarrow> int \<Rightarrow> string" where
  "quarterOf p t = ''Q'' @ showNat (nat (getMonth p t div 3 + 1))"

text \<open>The three results of the invoice-date block: \<open>invoiceDate\<close>, \<open>year\<close>, \<open>quarter\<close>.\<close>

definition invoiceDateFields :: "platform \<Rightarrow> jsval \<Rightarrow> jsval \<times> jsval \<times> jsval" where
  "invoiceDateFields p v =
     (case coerceDate p v of
        None \<Rightarrow> (JNull, JNull, JNull)
      | Some t \<Rightarrow> (JString (splitT0 (toISOString t)),
                   JNumber (Finite (of_int (getFullYear p t))),
                   JString (quarterOf p t)))"

definition dueDateField :: "platform \<Rightarrow> jsval \<Rightarrow> jsval" where
  "dueDateField p v =
     (case coerceDate p v of None \<Rightarrow> JNull | Some t \<Rightarrow> JString (splitT0 (toISOString t)))"

definition createdDateField :: "platform \<Rightarrow> jsval \<Rightarrow> jsval" where
  "createdDateField p v =
     (case coerceDate p v of None \<Rightarrow> JNull | Some t \<Rightarrow> JString (toISOString t))"

section \<open>The row transformer of \<^verbatim>\<open>route.ts\<close>\<close>

text \<open>
  A raw record is the object \<^verbatim>\<open>sheet_to_json\<close> yields for a sheet row: a dictionary from
  header to cell, a header that is missing reading as \<^verbatim>\<open>undefined\<close>. \<^verbatim>\<open>rawData\<close> is typed
  \<^verbatim>\<open>any[]\<close>; an element that is \<^verbatim>\<open>null\<close> is the one value on which the row's \<^verbatim>\<open>try\<close> block
  throws (reading \<^verbatim>\<open>row['Invoice date']\<close>, a TypeError), which is what the warning branch
  of the loop catches.
\<close>

type_synonym raw_record = "string \<rightharpoonup> jsval"

datatype raw = NullRow | Record raw_record

definition cell :: "raw_record \<Rightarrow> string \<Rightarrow> jsval" where
  "cell row header = (case row header of None \<Rightarrow> JUndefined | Some v \<Rightarrow> v)"

text \<open>\<^verbatim>\<open>row['X'] || null\<close>\<close>

definition orNull :: "jsval \<Rightarrow> jsval" where
  "orNull v = (if truthy v then v else JNull)"

text \<open>
  The canonical row is the object literal \<^verbatim>\<open>mappedRow\<close> (lines 218-312), kept as the list of
  its fields in the order of the source.
\<close>

type_synonym canonical_row = "(string \<times> jsval) list"

text \<open>\<^verbatim>\<open>r.name\<close>, the first field of that name (\<^verbatim>\<open>undefined\<close> if there is none).\<close>

fun field :: "canonical_row \<Rightarrow> string \<Rightarrow> jsval" where
  "field [] name = JUndefined"
| "field ((k, v) # r) name = (if name = k then v else field r name)"

definition mappedRow :: "platform \<Rightarrow> string \<Rightarrow> string \<Rightarrow> raw_record \<Rightarrow> canonical_row" where
  "mappedRow p entity batchId row =
     (let inv = invoiceDateFields p (cell row ''Invoice date'');
          invoiceDate = fst inv;
          year = fst (snd inv);
          quarter = snd (snd inv);
          dueDate = dueDateField p (cell row ''Due date'');
          createdDate = createdDateField p (cell row ''CREATEDDATE'')
      in [
        (''entity'', JString entity),
        (''year'', year),
        (''quarter'', quarter),
        (''sales_type'', orNull (cell row ''Sales Type'')),
        (''invoice'', orNull (cell row ''Invoice'')),
        (''voucher'', orNull (cell row ''Voucher'')),
        (''invoice_date'', invoiceDate),
        (''pool'', orNull (cell row ''Pool'')),
        (''supply_method'', orNull (cell row ''Supply method'')),
        (''sub_method_1'', orNull (cell row ''Sub Method - 1'')),
        (''sub_method_2'', orNull (cell row ''Sub Method - 2'')),
        (''sub_method_3'', orNull (cell row ''Sub Method - 3'')),
        (''application'', orNull (cell row ''Application'')),
        (''industry'', orNull (cell row ''Industry'')),
        (''sub_industry_1'', orNull (cell row ''Sub Industry - 1'')),
        (''sub_industry_2'', orNull (cell row ''Sub Industry - 2'')),
        (''general_group'', orNull (cell row ''General group'')),
        (''sales_order'', orNull (cell row ''Sales order'')),
        (''account_number'', orNull (cell row ''Account number'')),
        (''name'', orNull (cell row ''Name'')),
        (''name2'', orNull (cell row ''Name2'')),
        (''customer_invoice_account'', orNull (cell row ''Customer invoice account'')),
        (''invoice_account'', orNull (cell row ''Invoice account'')),
        (''group'', orNull (cell row ''Group'')),
        (''currency'', orNull (cell row ''Currency'')),
        (''invoice_amount'', parseNumber (cell row ''Invoice Amount'')),
        (''invoice_amount_mst'', parseNumber (cell row ''Invoice Amount_MST'')),
        (''sales_tax_amount'', parseNumber (cell row ''Sales tax amount'')),
        (''sales_tax_amount_accounting'', parseNumber (cell row ''The sales tax amount, in the accounting currency'')),
        (''total_for_invoice'', parseNumber (cell row ''Total for invoice'')),
        (''total_mst'', parseNumber (cell row ''Total_MST'')),
        (''open_balance'', parseNumber (cell row ''Open balance'')),
        (''due_date'', dueDate),
        (''sales_tax_group'', orNull (cell row ''Sales tax group'')),
        (''payment_type'', orNull (cell row ''Payment type'')),
        (''terms_of_payment'', orNull (cell row ''Terms of payment'')),
        (''payment_schedule'', orNull (cell row ''Payment schedule'')),
        (''method_of_payment'', orNull (cell row ''Method of payment'')),
        (''posting_profile'', orNull (cell row ''Posting profile'')),
        (''delivery_terms'', orNull (cell row ''Delivery terms'')),
        (''h_dim_wk'', orNull (cell row ''H_DIM_WK'')),
        (''h_wk_name'', orNull (cell row ''H_WK_NAME'')),
        (''h_dim_cc'', orNull (cell row ''H_DIM_CC'')),
        (''h_dim_name'', orNull (cell row ''H_DIM_NAME'')),
        (''line_number'', parseNumber (cell row ''Line number'')),
        (''street'', orNull (cell row ''Street'')),
        (''city'', orNull (cell row ''City'')),
        (''state'', orNull (cell row ''State'')),
        (''zip_postal_code'', orNull (cell row ''ZIP/postal code'')),
        (''final_zipcode'', orNull (cell row ''Final ZipCode'')),
        (''region'', orNull (cell row ''Region'')),
        (''product_type'', orNull (cell row ''Product type'')),
        (''item_group'', orNull (cell row ''Item group'')),
        (''category'', orNull (cell row ''Category'')),
        (''model'', orNull (cell row ''Model'')),
        (''item_number'', orNull (cell row ''Item number'')),
        (''product_name'', orNull (cell row ''Product name'')),
        (''text'', orNull (cell row ''Text'')),
        (''warehouse'', orNull (cell row ''Warehouse'')),
        (''name3'', orNull (cell row ''Name3'')),
        (''quantity'', parseNumber (cell row ''Quantity'')),
        (''inventory_unit'', orNull (cell row ''Inventory unit'')),
        (''price_unit'', parseNumber (cell row ''Price unit'')),
        (''net_amount'', parseNumber (cell row ''Net amount'')),
        (''line_amount_mst'', parseNumber (cell row ''Line Amount_MST'')),
        (''sales_tax_group2'', orNull (cell row ''Sales tax group2'')),
        (''tax_item_group'', orNull (cell row ''TaxItemGroup'')),
        (''mode_of_delivery'', orNull (cell row ''Mode of delivery'')),
        (''dlv_detail'', orNull (cell row ''Dlv Detail'')),
        (''online_order'', orNull (cell row ''Online order'')),
        (''sales_channel'', orNull (cell row ''Sales channel'')),
        (''promotion'', orNull (cell row ''Promotion'')),
        (''second_sales'', orNull (cell row ''2nd Sales'')),
        (''personnel_number'', orNull (cell row ''Personnel number'')),
        (''worker_name'', orNull (cell row ''WORKERNAME'')),
        (''l_dim_name'', orNull (cell row ''L_DIM_NAME'')),
        (''l_dim_wk'', orNull (cell row ''L_DIM_WK'')),
        (''l_wk_name'', orNull (cell row ''L_WK_NAME'')),
        (''l_dim_cc'', orNull (cell row ''L_DIM_CC'')),
        (''main_account'', orNull (cell row ''Main account'')),
        (''account_name'', orNull (cell row ''Account name'')),
        (''rebate'', parseNumber (cell row ''Rebate'')),
        (''description'', orNull (cell row ''Description'')),
        (''country'', orNull (cell row ''Country'')),
        (''created_date'', createdDate),
        (''created_by'', orNull (cell row ''CREATEDBY'')),
        (''exception'', orNull (cell row ''Exception'')),
        (''with_collection_agency'', orNull (cell row ''With collection agency'')),
        (''credit_rating'', orNull (cell row ''Credit rating'')),
        (''upload_batch_id'', JString batchId)
      ])"

definition typeErrorMessage :: string where
  "typeErrorMessage = ''Cannot read properties of null (reading 'Invoice date')''"

text \<open>The \<^verbatim>\<open>try\<close> block of one row: the mapped row, or the message of what was thrown.\<close>

definition mapRow :: "platform \<Rightarrow> string \<Rightarrow> string \<Rightarrow> raw \<Rightarrow> string + canonical_row" where
  "mapRow p entity batchId r =
     (case r of
        NullRow \<Rightarrow> Inl typeErrorMessage
      | Record row \<Rightarrow> Inr (mappedRow p entity batchId row))"

text \<open>
  \<^verbatim>\<open>route.ts\<close>, lines 121-323:
  \<^verbatim>\<open>
  for (let i = 0; i < rawData.length; i++) {
    const row = rawData[i];
    const rowNum = i + 2;
    try {
      ...
      transformedData.push(mappedRow);
    } catch (validationError: any) {
      errors.push(`Row ${rowNum}: ${validationError.message}`);
      if (errors.length >= 10) {
        errors.push('... (showing first 10 errors)');
        break;
      }
    }
  }
  \<close>
  The loop runs over the records that are left, with the index \<open>i\<close> of the first of them.
\<close>

definition warning :: "nat \<Rightarrow> string \<Rightarrow> string" where
  "warning i msg = ''Row '' @ showNat (i + 2) @ '': '' @ msg"

definition suppressed :: string where
  "suppressed = ''... (showing first 10 errors)''"

fun transformLoop ::
  "platform \<Rightarrow> string \<Rightarrow> string \<Rightarrow> raw list \<Rightarrow> nat \<Rightarrow> canonical_row list \<Rightarrow> string list
     \<Rightarrow> canonical_row list \<times> string list" where
  "transformLoop p entity batchId [] i transformedData errors = (transformedData, errors)"
| "transformLoop p entity batchId (r # rest) i transformedData errors =
     (case mapRow p entity batchId r of
        Inr mapped \<Rightarrow> transformLoop p entity batchId rest (i + 1) (transformedData @ [mapped]) errors
      | Inl msg \<Rightarrow>
          (let errors1 = errors @ [warning i msg] in
           if length errors1 \<ge> 10 then (transformedData, errors1 @ [suppressed])
           else transformLoop p entity batchId rest (i + 1) transformedData errors1))"

section \<open>A host for the examples\<close>

text \<open>
  The examples are evaluated on a host in UTC whose date parser reads the form
  \<^verbatim>\<open>YYYY-MM-DD\<close> only (midnight UTC of a day that exists), which prints a date in the ISO
  form and whose \<^verbatim>\<open>toLowerCase\<close> maps the letters A to Z. A second host differs from it in
  the time zone only: it is east of Greenwich, at \<open>+8:27:52\<close> until 1908 and at \<open>+9:00\<close>
  afterwards, which is the zone \<^verbatim>\<open>Asia/Seoul\<close> at the two dates the examples use (1899 and
  2023).
\<close>

definition isoDateOnly :: "string \<Rightarrow> jsdate" where
  "isoDateOnly s =
     (if length s = 10 \<and> s ! 4 = CHR ''-'' \<and> s ! 7 = CHR ''-''
         \<and> list_all isDigit (take 4 s @ take 2 (drop 5 s) @ drop 8 s)
      then (let y = int (digitsValue (take 4 s));
                m = int (digitsValue (take 2 (drop 5 s)));
                d = int (digitsValue (drop 8 s))
            in if civilFromDays (daysFromCivil y m d) = (y, m, d)
               then ValidDate (daysFromCivil y m d * msPerDay) else InvalidDate)
      else InvalidDate)"

definition lowerChar :: "char \<Rightarrow> char" where
  "lowerChar c =
     (if c \<in> set ''ABCDEFGHIJKLMNOPQRSTUVWXYZ'' then char_of (of_char c + (32::nat)) else c)"

definition utcHost :: platform where
  "utcHost = \<lparr>localTZA = (\<lambda>t isUTC. 0), dateParse = isoDateOnly,
      dateToString = (\<lambda>d. case d of InvalidDate \<Rightarrow> ''Invalid Date'' | ValidDate t \<Rightarrow> toISOString t),
      toLowerCase = map lowerChar\<rparr>"


section \<open>The upload-history store and the sales store\<close>

text \<open>
  The handlers reach the database through four calls of the Supabase client: an insert
  into \<^verbatim>\<open>upload_history\<close>, an insert of rows into \<^verbatim>\<open>sales_data\<close>, and an update of the
  \<^verbatim>\<open>upload_history\<close> rows of one batch. Each call either succeeds, or returns
  \<^verbatim>\<open>{ error }\<close>, or throws; which of the three is decided by the store, not by the handler.
  The store is a parameter: the outcome of the \<open>n\<close>-th call of a request. A call that does
  not succeed leaves the tables as they were. The run of a request records every call with
  its outcome, in the order of issue, and the progress lines
  \<^verbatim>\<open>console.log(`Inserted ${totalInserted}/...`)\<close>; the other console output is left out.
\<close>

record history_row =
  h_batch_id :: string
  h_entity :: string
  h_file_name :: string
  h_rows_uploaded :: nat
  h_status :: string
  h_error_message :: "string option"

record database =
  upload_history :: "history_row list"
  sales_data :: "canonical_row list"

record db_error =
  err_message :: string
  err_details :: "string option"
  err_hint :: "string option"

datatype outcome = Ok | Failed db_error | Thrown string

datatype db_call =
    InsertHistory history_row
  | InsertSales "canonical_row list"
  | UpdateHistory string string "string option"
  \<comment> \<open>\<^verbatim>\<open>.update({ status, error_message? }).eq('batch_id', batchId)\<close>: batch, status, message\<close>

type_synonym store = "nat \<Rightarrow> outcome"

fun applyCall :: "db_call \<Rightarrow> database \<Rightarrow> database" where
  "applyCall (InsertHistory h) d = d\<lparr>upload_history := upload_history d @ [h]\<rparr>"
| "applyCall (InsertSales rows) d = d\<lparr>sales_data := sales_data d @ rows\<rparr>"
| "applyCall (UpdateHistory b st msg) d =
     d\<lparr>upload_history :=
         map (\<lambda>h. if h_batch_id h = b
                  then h\<lparr>h_status := st,
                         h_error_message := (case msg of None \<Rightarrow> h_error_message h | Some m \<Rightarrow> Some m)\<rparr>
                  else h)
             (upload_history d)\<rparr>"

record run =
  db :: database
  trace :: "(db_call \<times> outcome) list"
  progress :: "nat list"

definition perform :: "store \<Rightarrow> db_call \<Rightarrow> run \<Rightarrow> outcome \<times> run" where
  "perform store call w =
     (let oc = store (length (trace w))
      in (oc, w\<lparr>db := (if oc = Ok then applyCall call (db w) else db w),
                 trace := trace w @ [(call, oc)]\<rparr>))"

section \<open>The orchestrator of \<^verbatim>\<open>route.ts\<close>\<close>

text \<open>
  The request is the parsed form: the file (name, size, declared type, and what
  \<^verbatim>\<open>XLSX.read\<close> and \<^verbatim>\<open>sheet_to_json\<close> make of its bytes: an exception, or the records of the
  first sheet) and the entity. The response is the JSON body with its status; the
  \<^verbatim>\<open>stack\<close> field of the last handler depends on the build mode and is left out.
\<close>

datatype xlsx = Unreadable string | FirstSheet "raw list"

record upload =
  fileName :: string
  fileSize :: nat
  fileType :: string
  workbook :: xlsx

record request =
  formFile :: "upload option"
  formEntity :: "string option"

datatype details = Message string | Messages "string list"

datatype response =
    ErrorResponse nat string "details option" "string option"
    \<comment> \<open>status, \<^verbatim>\<open>error\<close>, \<^verbatim>\<open>details\<close>, \<^verbatim>\<open>hint\<close>; \<^verbatim>\<open>success: false\<close>\<close>
  | SuccessResponse string nat nat string string
    \<comment> \<open>\<^verbatim>\<open>batchId\<close>, \<^verbatim>\<open>rowsInserted\<close>, \<^verbatim>\<open>rowsSkipped\<close>, \<^verbatim>\<open>entity\<close>, \<^verbatim>\<open>fileName\<close>; status 200\<close>

datatype 'a completion = Normal 'a | Throws string

definition validEntities :: "string list" where
  "validEntities = [''HQ'', ''USA'', ''BWA'', ''Vietnam'', ''Healthcare'', ''Korot'']"

definition MAX_FILE_SIZE :: nat where
  "MAX_FILE_SIZE = 50 * 1024 * 1024"

definition validTypes :: "string list" where
  "validTypes = [''application/vnd.openxmlformats-officedocument.spreadsheetml.sheet'',
                 ''application/vnd.ms-excel'']"

definition CHUNK_SIZE :: nat where
  "CHUNK_SIZE = 500"

text \<open>\<^verbatim>\<open>xs.slice(i, j)\<close> for \<open>i \<le> j\<close>.\<close>

definition slice :: "'a list \<Rightarrow> nat \<Rightarrow> nat \<Rightarrow> 'a list" where
  "slice xs i j = take (j - i) (drop i xs)"

text \<open>\<^verbatim>\<open>row.upload_batch_id = batchId\<close>\<close>

fun setField :: "canonical_row \<Rightarrow> string \<Rightarrow> jsval \<Rightarrow> canonical_row" where
  "setField [] name v = [(name, v)]"
| "setField ((k, x) # r) name v = (if k = name then (k, v) # r else (k, x) # setField r name v)"

text \<open>
  \<^verbatim>\<open>route.ts\<close>, lines 372-406:
  \<^verbatim>\<open>
  const CHUNK_SIZE = 500;
  let totalInserted = 0;
  for (let i = 0; i < transformedData.length; i += CHUNK_SIZE) {
    const chunk = transformedData.slice(i, i + CHUNK_SIZE);
    const { error: insertError } = await supabase.from('sales_data').insert(chunk);
    if (insertError) {
      await supabase.from('upload_history')
        .update({ status: 'failed', error_message: insertError.message })
        .eq('batch_id', batchId);
      return NextResponse.json(
        { success: false, error: 'Database insert failed',
          details: insertError.message, hint: insertError.hint },
        { status: 500 });
    }
    totalInserted += chunk.length;
    console.log(`Inserted ${totalInserted}/${transformedData.length} rows`);
  }
  \<close>
  The loop ends in one of three ways: it falls through (\<open>Normal None\<close>), it returns a
  response (\<open>Normal (Some r)\<close>), or a call throws.
\<close>

function insertLoop ::
  "store \<Rightarrow> string \<Rightarrow> canonical_row list \<Rightarrow> nat \<Rightarrow> nat \<Rightarrow> run
     \<Rightarrow> response option completion \<times> nat \<times> run" where
  "insertLoop store batchId transformedData i totalInserted w =
     (if i < length transformedData then
        (let chunk = slice transformedData i (i + CHUNK_SIZE);
             r = perform store (InsertSales chunk) w
         in case fst r of
              Thrown msg \<Rightarrow> (Throws msg, totalInserted, snd r)
            | Failed insertError \<Rightarrow>
                (let u = perform store
                           (UpdateHistory batchId ''failed'' (Some (err_message insertError))) (snd r)
                 in case fst u of
                      Thrown msg \<Rightarrow> (Throws msg, totalInserted, snd u)
                    | _ \<Rightarrow> (Normal (Some (ErrorResponse 500 ''Database insert failed''
                                           (Some (Message (err_message insertError)))
                                           (err_hint insertError))),
                            totalInserted, snd u))
            | Ok \<Rightarrow>
                insertLoop store batchId transformedData (i + CHUNK_SIZE)
                  (totalInserted + length chunk)
                  ((snd r)\<lparr>progress := progress (snd r) @ [totalInserted + length chunk]\<rparr>))
      else (Normal None, totalInserted, w))"
  by pat_completeness auto
termination
  by (relation "measure (\<lambda>(store, batchId, transformedData, i, totalInserted, w).
                  length transformedData - i)")
     (auto simp: CHUNK_SIZE_def)

declare insertLoop.simps [simp del]

text \<open>
  \<^verbatim>\<open>route.ts\<close>, lines 339-424: the batch identifier, the history record, the chunked
  inserts, the final update and the success response. The result is how the \<^verbatim>\<open>try\<close> block
  ends, with the values of \<^verbatim>\<open>batchId\<close> and \<^verbatim>\<open>totalInserted\<close> at that point. \<open>uuid\<close> is what
  \<^verbatim>\<open>uuidv4()\<close> returns.
\<close>

definition persist ::
  "store \<Rightarrow> string \<Rightarrow> string \<Rightarrow> string \<Rightarrow> canonical_row list \<Rightarrow> string list \<Rightarrow> run
     \<Rightarrow> response completion \<times> string \<times> nat \<times> run" where
  "persist store uuid entity name transformed errors w =
     (let batchId = uuid;
          transformedData = map (\<lambda>row. setField row ''upload_batch_id'' (JString batchId)) transformed;
          r = perform store
                (InsertHistory \<lparr>h_batch_id = batchId, h_entity = entity, h_file_name = name,
                                h_rows_uploaded = length transformedData,
                                h_status = ''processing'', h_error_message = None\<rparr>) w
      in case fst r of
           Thrown msg \<Rightarrow> (Throws msg, batchId, 0, snd r)
         | Failed historyError \<Rightarrow>
             (Normal (ErrorResponse 500 ''Database error''
                        (Some (Message (err_message historyError))) None), batchId, 0, snd r)
         | Ok \<Rightarrow>
             (case insertLoop store batchId transformedData 0 0 (snd r) of
                (Throws msg, totalInserted, w2) \<Rightarrow> (Throws msg, batchId, totalInserted, w2)
              | (Normal (Some resp), totalInserted, w2) \<Rightarrow> (Normal resp, batchId, totalInserted, w2)
              | (Normal None, totalInserted, w2) \<Rightarrow>
                  (let u = perform store (UpdateHistory batchId ''completed'' None) w2
                   in case fst u of
                        Thrown msg \<Rightarrow> (Throws msg, batchId, totalInserted, snd u)
                      | _ \<Rightarrow> (Normal (SuccessResponse batchId totalInserted (length errors)
                                         entity name),
                              batchId, totalInserted, snd u))))"

text \<open>
  \<^verbatim>\<open>route.ts\<close>, lines 20-335: the checks of the request, the reading of the sheet and the
  transformation. This part makes no call to the store and \<^verbatim>\<open>batchId\<close> is still \<^verbatim>\<open>''\<close> (the
  rows are mapped with it) at each of its returns. It ends with a response, or hands the
  entity, the file name, \<^verbatim>\<open>transformedData\<close> and \<^verbatim>\<open>errors\<close> to the rest.
\<close>

definition prepare ::
  "platform \<Rightarrow> request \<Rightarrow> response + (string \<times> string \<times> canonical_row list \<times> string list)" where
  "prepare p req =
     (case formFile req of
        None \<Rightarrow> Inl (ErrorResponse 400 ''No file provided'' None None)
      | Some file \<Rightarrow>
     (case formEntity req of
        None \<Rightarrow> Inl (ErrorResponse 400 ''No entity selected'' None None)
      | Some entity \<Rightarrow>
     if entity = [] then
       Inl (ErrorResponse 400 ''No entity selected'' None None)
     else if entity \<notin> set validEntities then
       Inl (ErrorResponse 400 (''Invalid entity: '' @ entity) None None)
     else if fileSize file > MAX_FILE_SIZE then
       Inl (ErrorResponse 400 ''File too large. Maximum size is 50MB.'' None None)
     else if fileType file \<notin> set validTypes then
       Inl (ErrorResponse 400 ''Invalid file type. Only .xlsx and .xls files are allowed.''
              None None)
     else
     (case workbook file of
        Unreadable msg \<Rightarrow>
          Inl (ErrorResponse 400 ''Failed to parse Excel file'' (Some (Message msg)) None)
      | FirstSheet rawData \<Rightarrow>
          if rawData = [] then
            Inl (ErrorResponse 400 ''Excel file is empty'' None None)
          else
            (let t = transformLoop p entity [] rawData 0 [] [];
                 transformedData = fst t;
                 errors = snd t
             in if errors \<noteq> [] \<and> transformedData = [] then
                  Inl (ErrorResponse 400 ''Data validation failed'' (Some (Messages errors)) None)
                else Inr (entity, fileName file, transformedData, errors)))))"

text \<open>The \<^verbatim>\<open>try\<close> block, lines 14-425.\<close>

definition tryBlock ::
  "platform \<Rightarrow> store \<Rightarrow> string \<Rightarrow> request \<Rightarrow> run \<Rightarrow> response completion \<times> string \<times> nat \<times> run" where
  "tryBlock p store uuid req w =
     (case prepare p req of
        Inl resp \<Rightarrow> (Normal resp, [], 0, w)
      | Inr (entity, name, transformedData, errors) \<Rightarrow>
          persist store uuid entity name transformedData errors w)"

text \<open>
  \<^verbatim>\<open>route.ts\<close>, lines 426-453, the last handler:
  \<^verbatim>\<open>
  } catch (error: any) {
    if (batchId) {
      try {
        const supabase = createServiceClient();
        await supabase.from('upload_history')
          .update({ status: 'failed', error_message: error.message })
          .eq('batch_id', batchId);
      } catch (updateError) { console.error('Failed to update history:', updateError); }
    }
    return NextResponse.json(
      { success: false, error: 'Internal server error', details: error.message, ... },
      { status: 500 });
  }
  \<close>
\<close>

definition catchBlock :: "store \<Rightarrow> string \<Rightarrow> string \<Rightarrow> run \<Rightarrow> response \<times> run" where
  "catchBlock store batchId msg w =
     (let w1 = (if batchId \<noteq> []
                then snd (perform store (UpdateHistory batchId ''failed'' (Some msg)) w)
                else w)
      in (ErrorResponse 500 ''Internal server error'' (Some (Message msg)) None, w1))"

text \<open>
  The handler on a database \<open>d\<close>: the response, the final values of \<^verbatim>\<open>batchId\<close> and
  \<^verbatim>\<open>totalInserted\<close>, and the run.
\<close>

definition POST ::
  "platform \<Rightarrow> store \<Rightarrow> string \<Rightarrow> request \<Rightarrow> database \<Rightarrow> response \<times> string \<times> nat \<times> run" where
  "POST p store uuid req d =
     (case tryBlock p store uuid req \<lparr>db = d, trace = [], progress = []\<rparr> of
        (Normal resp, batchId, totalInserted, w) \<Rightarrow> (resp, batchId, totalInserted, w)
      | (Throws msg, batchId, totalInserted, w) \<Rightarrow>
          (let c = catchBlock store batchId msg w in (fst c, batchId, totalInserted, snd c)))"

section \<open>The dates of a row in \<^verbatim>\<open>part_000\<close>\<close>

text \<open>
  The handler of \<^verbatim>\<open>part_000\<close> reads a cell through \<^verbatim>\<open>getValue\<close> (lines 146-156):
  \<^verbatim>\<open>
  const getValue = (row: ExcelRow, columnName: string): any => {
    if (row[columnName] !== undefined) return row[columnName];
    const keys = Object.keys(row);
    const matchedKey = keys.find(k => k.toLowerCase() === columnName.toLowerCase());
    if (matchedKey) return row[matchedKey];
    return null;
  };
  \<close>
  The order of the keys matters here, so a row is the list of its keys, in the order of
  \<^verbatim>\<open>Object.keys\<close>, each with its cell.
\<close>

type_synonym excel_row = "(string \<times> jsval) list"

text \<open>\<^verbatim>\<open>row[key]\<close>\<close>

definition propertyOf :: "excel_row \<Rightarrow> string \<Rightarrow> jsval" where
  "propertyOf row key = (case map_of row key of None \<Rightarrow> JUndefined | Some v \<Rightarrow> v)"

definition getValue :: "platform \<Rightarrow> excel_row \<Rightarrow> string \<Rightarrow> jsval" where
  "getValue p row columnName =
     (if propertyOf row columnName \<noteq> JUndefined then propertyOf row columnName
      else case find (\<lambda>k. toLowerCase p k = toLowerCase p columnName) (map fst row) of
             Some matchedKey \<Rightarrow> if matchedKey \<noteq> [] then propertyOf row matchedKey else JNull
           | None \<Rightarrow> JNull)"

text \<open>
  \<^verbatim>\<open>part_000\<close>, lines 174-183, the fields \<^verbatim>\<open>year\<close> and \<^verbatim>\<open>quarter\<close> of the row it builds:
  \<^verbatim>\<open>
  const invoiceDateValue = getValue(row, 'Invoice date') || getValue(row, 'Date');
  const invoiceDate = parseDateValue(invoiceDateValue);
  let year: number | null = null;
  let quarter: string | null = null;
  if (invoiceDate) {
    year = getYearFromDate(invoiceDate);
    quarter = getQuarterFromDate(invoiceDate);
  }
  \<close>
  \<^verbatim>\<open>getYearFromDate\<close> and \<^verbatim>\<open>getQuarterFromDate\<close> are imported from
  \<^verbatim>\<open>@/lib/utils/formatters\<close>, which is not among the sources: they are parameters.
\<close>

record formatters =
  getYearFromDate :: "jsdate \<Rightarrow> jsval"
  getQuarterFromDate :: "jsdate \<Rightarrow> jsval"

definition invoiceDateValue :: "platform \<Rightarrow> excel_row \<Rightarrow> jsval" where
  "invoiceDateValue p row =
     (let v = getValue p row ''Invoice date'' in if truthy v then v else getValue p row ''Date'')"

definition yearQuarter_part000 :: "formatters \<Rightarrow> platform \<Rightarrow> excel_row \<Rightarrow> jsval \<times> jsval" where
  "yearQuarter_part000 f p row =
     (case parseDateValue p (invoiceDateValue p row) of
        None \<Rightarrow> (JNull, JNull)
      | Some invoiceDate \<Rightarrow> (getYearFromDate f invoiceDate, getQuarterFromDate f invoiceDate))"

text \<open>
  \<^verbatim>\<open>part_000\<close>, lines 287-293, the field of a date column (\<^verbatim>\<open>invoice_date\<close>, \<^verbatim>\<open>due_date\<close>,
  \<^verbatim>\<open>created_date\<close>) from the cell \<^verbatim>\<open>value\<close> of its own column:
  \<^verbatim>\<open>
  const dateValue = parseDateValue(value);
  dbRow[dbCol] = dateValue ? dateValue.toISOString().split('T')[0] : null;
  \<close>
  \<^verbatim>\<open>toISOString\<close> throws a RangeError on an Invalid Date, which \<^verbatim>\<open>parseDateValue\<close> can return
  for a number or a \<^verbatim>\<open>Date\<close>; the \<^verbatim>\<open>catch\<close> of the row (line 308) then drops the row.
\<close>

definition dateColumn_part000 :: "platform \<Rightarrow> jsval \<Rightarrow> jsval completion" where
  "dateColumn_part000 p v =
     (case parseDateValue p v of
        None \<Rightarrow> Normal JNull
      | Some InvalidDate \<Rightarrow> Throws ''Invalid time value''
      | Some (ValidDate t) \<Rightarrow> Normal (JString (splitT0 (toISOString t))))"

text \<open>
  Modelled from the spec: \<^verbatim>\<open>getYearFromDate\<close> and \<^verbatim>\<open>getQuarterFromDate\<close> of
  \<^verbatim>\<open>@/lib/utils/formatters\<close>, which are missing from the sources. The spec has:
  ``\<^verbatim>\<open>year = calendarYear(date)\<close>; \<^verbatim>\<open>quarter = "Q" + (floor(calendarMonth0 / 3) + 1)\<close> using
  zero-based month. Both null when the source date is null or unparseable.'' The calendar is
  taken in local time, as in \<^verbatim>\<open>route.ts\<close>.
\<close>

definition specFormatters :: "platform \<Rightarrow> formatters" where
  "specFormatters p =
     \<lparr>getYearFromDate =
        (\<lambda>d. case d of InvalidDate \<Rightarrow> JNull
                      | ValidDate t \<Rightarrow> JNumber (Finite (of_int (getFullYear p t)))),
      getQuarterFromDate =
        (\<lambda>d. case d of InvalidDate \<Rightarrow> JNull | ValidDate t \<Rightarrow> JString (quarterOf p t))\<rparr>"

section \<open>The persistence of the handler in \<^verbatim>\<open>part_000\<close>\<close>

text \<open>
  \<^verbatim>\<open>part_000\<close>, lines 315-379 and the last handler, 380-391. The batch identifier, the
  entity, the file name and the transformed rows \<^verbatim>\<open>salesData\<close> are given.
  \<^verbatim>\<open>
  let rowsInserted = 0;
  const errors: string[] = [];
  if (salesData.length > 0) {
    try {
      const { data, error: batchError } = await supabase.from('sales_data').insert(salesData).select();
      if (batchError) {
        for (let i = 0; i < salesData.length; i++) {
          const row = salesData[i];
          try {
            const { error: insertError } = await supabase.from('sales_data').insert(row);
            if (insertError) {
              errors.push(`Row ${i + 2}: ${insertError.message}${insertError.details ? ` (${insertError.details})` : ''}${insertError.hint ? ` - Hint: ${insertError.hint}` : ''}`);
            } else {
              rowsInserted++;
            }
          } catch (err) { errors.push(`Row ${i + 2}: ${(err as Error).message}`); }
        }
      } else {
        rowsInserted = data?.length || 0;
      }
    } catch (err) { errors.push(`Failed to insert data: ${(err as Error).message}`); }
  }
  const { error: historyError } = await supabase.from('upload_history').insert({
    batch_id: batchId, entity, file_name: file.name, file_path: null,
    rows_uploaded: rowsInserted,
    status: errors.length > 0 ? 'partial' : 'success',
    error_message: errors.length > 0 ? errors.join('; ') : null,
  });
  if (historyError) { console.error(...); }
  return NextResponse.json({ success: true, batchId, rowsInserted,
    totalRows: salesData.length, errors: errors.length > 0 ? errors : undefined });
  } catch (error) {
    const errorMessage = (error as Error).message || 'Unknown error occurred';
    return NextResponse.json({ error: 'Failed to process upload', details: errorMessage, ... },
      { status: 500 });
  }
  \<close>
  A successful bulk insert returns the inserted rows as \<^verbatim>\<open>data\<close>.
\<close>

definition rowErrorText :: "nat \<Rightarrow> db_error \<Rightarrow> string" where
  "rowErrorText i insertError =
     ''Row '' @ showNat (i + 2) @ '': '' @ err_message insertError
     @ (case err_details insertError of
          None \<Rightarrow> [] | Some t \<Rightarrow> if t = [] then [] else '' ('' @ t @ '')'')
     @ (case err_hint insertError of
          None \<Rightarrow> [] | Some t \<Rightarrow> if t = [] then [] else '' - Hint: '' @ t)"

fun insertEach ::
  "store \<Rightarrow> canonical_row list \<Rightarrow> nat \<Rightarrow> nat \<Rightarrow> string list \<Rightarrow> run \<Rightarrow> nat \<times> string list \<times> run" where
  "insertEach store [] i rowsInserted errors w = (rowsInserted, errors, w)"
| "insertEach store (row # rest) i rowsInserted errors w =
     (let r = perform store (InsertSales [row]) w
      in case fst r of
           Ok \<Rightarrow> insertEach store rest (i + 1) (rowsInserted + 1) errors (snd r)
         | Failed insertError \<Rightarrow>
             insertEach store rest (i + 1) rowsInserted (errors @ [rowErrorText i insertError]) (snd r)
         | Thrown msg \<Rightarrow>
             insertEach store rest (i + 1) rowsInserted
               (errors @ [''Row '' @ showNat (i + 2) @ '': '' @ msg]) (snd r))"

fun joinWith :: "string \<Rightarrow> string list \<Rightarrow> string" where
  "joinWith sep [] = []"
| "joinWith sep [x] = x"
| "joinWith sep (x # y # r) = x @ sep @ joinWith sep (y # r)"

datatype response_part000 =
    Processed string nat nat "string list"
    \<comment> \<open>\<^verbatim>\<open>batchId\<close>, \<^verbatim>\<open>rowsInserted\<close>, \<^verbatim>\<open>totalRows\<close>, \<^verbatim>\<open>errors\<close>; status 200\<close>
  | ProcessFailed string
    \<comment> \<open>status 500, \<^verbatim>\<open>error: 'Failed to process upload'\<close>, \<^verbatim>\<open>details\<close>\<close>

definition persist_part000 ::
  "store \<Rightarrow> string \<Rightarrow> string \<Rightarrow> string \<Rightarrow> canonical_row list \<Rightarrow> run \<Rightarrow> response_part000 \<times> run" where
  "persist_part000 store batchId entity name salesData w =
     (let ins =
            (if salesData \<noteq> [] then
               (let r = perform store (InsertSales salesData) w
                in case fst r of
                     Ok \<Rightarrow> (length salesData, [], snd r)
                   | Failed batchError \<Rightarrow> insertEach store salesData 0 0 [] (snd r)
                   | Thrown msg \<Rightarrow> (0, [''Failed to insert data: '' @ msg], snd r))
             else (0, [], w));
          rowsInserted = fst ins;
          errors = fst (snd ins);
          h = perform store
                (InsertHistory \<lparr>h_batch_id = batchId, h_entity = entity, h_file_name = name,
                                h_rows_uploaded = rowsInserted,
                                h_status = (if errors \<noteq> [] then ''partial'' else ''success''),
                                h_error_message =
                                  (if errors \<noteq> [] then Some (joinWith ''; '' errors) else None)\<rparr>)
                (snd (snd ins))
      in case fst h of
           Thrown msg \<Rightarrow>
             (ProcessFailed (if msg = [] then ''Unknown error occurred'' else msg), snd h)
         | _ \<Rightarrow> (Processed batchId rowsInserted (length salesData) errors, snd h))"

section \<open>Vocabulary of the properties\<close>

text \<open>A record of the examples: an invoice of 2024-05-15 with a quantity written as text.\<close>

definition sampleRecord :: raw_record where
  "sampleRecord = map_of [(''Invoice date'', JNumber (Finite 45427)), (''Quantity'', JString ''3 pcs'')]"

text \<open>
  What the transformation of a list of records yields when no warning is suppressed: the
  mapped rows of the records on which the row's block does not throw, and one warning for
  each of the others, numbered from the index \<open>i\<close> of the first record.
\<close>

fun rowsOf :: "platform \<Rightarrow> string \<Rightarrow> string \<Rightarrow> raw list \<Rightarrow> canonical_row list" where
  "rowsOf p entity batchId [] = []"
| "rowsOf p entity batchId (r # rest) =
     (case mapRow p entity batchId r of
        Inr mapped \<Rightarrow> mapped # rowsOf p entity batchId rest
      | Inl msg \<Rightarrow> rowsOf p entity batchId rest)"

fun warningsOf :: "platform \<Rightarrow> string \<Rightarrow> string \<Rightarrow> nat \<Rightarrow> raw list \<Rightarrow> string list" where
  "warningsOf p entity batchId i [] = []"
| "warningsOf p entity batchId i (r # rest) =
     (case mapRow p entity batchId r of
        Inr mapped \<Rightarrow> warningsOf p entity batchId (i + 1) rest
      | Inl msg \<Rightarrow> warning i msg # warningsOf p entity batchId (i + 1) rest)"

text \<open>Stores of the examples: one that accepts every call, one whose \<open>k\<close>-th call fails.\<close>

definition reliable :: store where
  "reliable n = Ok"

definition sampleError :: db_error where
  "sampleError = \<lparr>err_message = ''connection lost'', err_details = None, err_hint = None\<rparr>"

definition failingAt :: "nat \<Rightarrow> store" where
  "failingAt k n = (if n = k then Failed sampleError else Ok)"

definition emptyDatabase :: database where
  "emptyDatabase = \<lparr>upload_history = [], sales_data = []\<rparr>"

definition sampleRequest :: "string \<Rightarrow> raw list \<Rightarrow> request" where
  "sampleRequest entity rawData =
     \<lparr>formFile = Some \<lparr>fileName = ''sales.xlsx'', fileSize = 4096,
                         fileType = ''application/vnd.ms-excel'',
                         workbook = FirstSheet rawData\<rparr>,
      formEntity = Some entity\<rparr>"

text \<open>
  The chunks of the insert loop: \<open>chunks xs i k\<close> are the first \<open>k\<close> slices of 500 from
  index \<open>i\<close>; \<open>totals t ns\<close> are the running sums of \<open>ns\<close> from \<open>t\<close>.
\<close>

fun chunks :: "'a list \<Rightarrow> nat \<Rightarrow> nat \<Rightarrow> 'a list list" where
  "chunks xs i 0 = []"
| "chunks xs i (Suc k) = slice xs i (i + CHUNK_SIZE) # chunks xs (i + CHUNK_SIZE) k"

fun totals :: "nat \<Rightarrow> nat list \<Rightarrow> nat list" where
  "totals t [] = []"
| "totals t (n # ns) = (t + n) # totals (t + n) ns"

fun isRowInsert :: "db_call \<Rightarrow> bool" where
  "isRowInsert (InsertSales rows) = True"
| "isRowInsert c = False"

fun isProcessingRecord :: "db_call \<Rightarrow> bool" where
  "isProcessingRecord (InsertHistory h) = (h_status h = ''processing'')"
| "isProcessingRecord c = False"

text \<open>
  In a trace, no insert of rows is issued before a history record in state
  \<^verbatim>\<open>processing\<close> has been written.
\<close>

fun historyBeforeRows :: "(db_call \<times> outcome) list \<Rightarrow> bool" where
  "historyBeforeRows [] = True"
| "historyBeforeRows ((c, oc) # rest) =
     (if isProcessingRecord c \<and> oc = Ok then True
      else \<not> isRowInsert c \<and> historyBeforeRows rest)"

text \<open>
  In a trace, the inserts of rows are the chunks of \<open>xs\<close> from index \<open>i\<close>, one after the
  other, and an insert that did not succeed is the last one.
\<close>

fun sequential :: "canonical_row list \<Rightarrow> nat \<Rightarrow> (db_call \<times> outcome) list \<Rightarrow> bool" where
  "sequential xs i [] = True"
| "sequential xs i ((c, oc) # rest) =
     (case c of
        InsertSales rows \<Rightarrow>
          rows = slice xs i (i + CHUNK_SIZE)
          \<and> (if oc = Ok then sequential xs (i + CHUNK_SIZE) rest
             else list_all (\<lambda>e. \<not> isRowInsert (fst e)) rest)
      | _ \<Rightarrow> sequential xs i rest)"

definition stamped :: "string \<Rightarrow> canonical_row list \<Rightarrow> canonical_row list" where
  "stamped batchId rows = map (\<lambda>row. setField row ''upload_batch_id'' (JString batchId)) rows"

definition processingRecord :: "string \<Rightarrow> string \<Rightarrow> string \<Rightarrow> nat \<Rightarrow> history_row" where
  "processingRecord batchId entity name n =
     \<lparr>h_batch_id = batchId, h_entity = entity, h_file_name = name, h_rows_uploaded = n,
      h_status = ''processing'', h_error_message = None\<rparr>"

text \<open>A record whose invoice date is the serial 0.\<close>

definition zeroSerialRecord :: raw_record where
  "zeroSerialRecord = map_of [(''Invoice date'', JNumber (Finite 0)), (''Invoice'', JString ''INV-1'')]"

definition terminalStatus :: "string \<Rightarrow> bool" where
  "terminalStatus st = (st = ''completed'' \<or> st = ''failed'')"

fun isTerminalUpdate :: "string \<Rightarrow> db_call \<Rightarrow> bool" where
  "isTerminalUpdate b (UpdateHistory b1 st m) = (b1 = b \<and> terminalStatus st)"
| "isTerminalUpdate b c = False"

text \<open>The run of a request that has issued the first \<open>k\<close> chunks, all accepted.\<close>

definition afterChunks :: "canonical_row list \<Rightarrow> nat \<Rightarrow> nat \<Rightarrow> nat \<Rightarrow> run \<Rightarrow> run" where
  "afterChunks xs i k t w =
     w\<lparr>db := (db w)\<lparr>sales_data := sales_data (db w) @ concat (chunks xs i k)\<rparr>,
       trace := trace w @ map (\<lambda>c. (InsertSales c, Ok)) (chunks xs i k),
       progress := progress w @ totals t (map length (chunks xs i k))\<rparr>"

text \<open>The parts of what the handler returns.\<close>

definition responseOf :: "response \<times> string \<times> nat \<times> run \<Rightarrow> response" where
  "responseOf r = fst r"

definition batchIdOf :: "response \<times> string \<times> nat \<times> run \<Rightarrow> string" where
  "batchIdOf r = fst (snd r)"

definition totalInsertedOf :: "response \<times> string \<times> nat \<times> run \<Rightarrow> nat" where
  "totalInsertedOf r = fst (snd (snd r))"

definition runOf :: "response \<times> string \<times> nat \<times> run \<Rightarrow> run" where
  "runOf r = snd (snd (snd r))"

text \<open>The run of a request before its first call, on the empty database.\<close>

definition freshRun :: run where
  "freshRun = \<lparr>db = emptyDatabase, trace = [], progress = []\<rparr>"



text \<open>
  Rows of \<^verbatim>\<open>part_000\<close>: one without a column \<^verbatim>\<open>Invoice date\<close> but with a column \<^verbatim>\<open>Date\<close>,
  one whose invoice date is the serial 0 beside a column \<^verbatim>\<open>Date\<close>, and one whose invoice
  date is the empty text, without a column \<^verbatim>\<open>Date\<close>.
\<close>

definition dateOnlyRow :: excel_row where
  "dateOnlyRow = [(''Invoice'', JString ''INV-7''), (''Date'', JString ''2023-05-17'')]"

definition zeroSerialRow :: excel_row where
  "zeroSerialRow = [(''Invoice date'', JNumber (Finite 0)), (''Date'', JString ''2023-05-17'')]"

definition blankDateRow :: excel_row where
  "blankDateRow = [(''Invoice date'', JString []), (''Invoice'', JString ''INV-1'')]"

text \<open>
  Stores that are lost from the \<open>k\<close>-th call on: every later call returns an error, or the
  \<open>k\<close>-th call returns an error and every later one throws.
\<close>

definition failingFrom :: "nat \<Rightarrow> store" where
  "failingFrom k n = (if n < k then Ok else Failed sampleError)"

definition throwingAfter :: "nat \<Rightarrow> store" where
  "throwingAfter k n = (if n < k then Ok else if n = k then Failed sampleError else Thrown ''fetch failed'')"

text \<open>
  The run of a request whose chunk \<open>k\<close> is refused: the state after the update that follows
  the refused insert, and how the handler ends, by the outcome of that update.
\<close>

definition refusedRun ::
  "store \<Rightarrow> string \<Rightarrow> string \<Rightarrow> string \<Rightarrow> canonical_row list \<Rightarrow> nat \<Rightarrow> db_error \<Rightarrow> database \<Rightarrow> run" where
  "refusedRun store uuid entity name data k e d =
     snd (perform store (UpdateHistory uuid ''failed'' (Some (err_message e)))
       (snd (perform store
               (InsertSales (slice (stamped uuid data) (k * CHUNK_SIZE) (k * CHUNK_SIZE + CHUNK_SIZE)))
               (afterChunks (stamped uuid data) 0 k 0
                  (snd (perform store
                          (InsertHistory (processingRecord uuid entity name (length data)))
                          \<lparr>db = d, trace = [], progress = []\<rparr>))))))"

section \<open>Properties of the date coercion\<close>

lemma showNat_small: "n < 10 \<Longrightarrow> showNat n = [digitChar n]"
  by (simp add: showNat.simps)




lemma truncNumber_of_int: "truncNumber (of_int n) = n"
  by (simp add: truncNumber_def)

lemma newDateNumber_of_int:
  "newDateNumber (Finite (of_int n)) = (if \<bar>n\<bar> > 8640000000000000 then InvalidDate else ValidDate n)"
proof -
  have "(\<bar>(of_int n)::rat\<bar> > 8640000000000000) = (\<bar>n\<bar> > 8640000000000000)"
    by (metis of_int_abs of_int_less_iff of_int_numeral)
  then show ?thesis
    by (simp add: newDateNumber_def truncNumber_of_int)
qed

text \<open>A whole number below \<open>2^53\<close> is a double: it is its own rounding.\<close>

lemma roundHalfEven_of_int: "roundHalfEven (of_int n) = n"
  by (simp add: roundHalfEven_def)

lemma floorLog2_int:
  assumes "0 < n" and "n < 2 ^ 53"
  shows "floorLog2 (of_int n) \<le> 52"
proof -
  have "bitlen n \<le> 53"
    using assms by (simp add: bitlen_le_iff_power)
  moreover have "bitlen 1 = 1"
    by (simp add: bitlen_alt_def)
  ultimately show ?thesis
    by (simp add: floorLog2_def Let_def)
qed

lemma roundDouble_of_int:
  assumes "\<bar>n\<bar> < 2 ^ 53"
  shows "roundDouble (of_int n) = Finite (of_int n)"
proof (cases "n = 0")
  case True
  then show ?thesis by (simp add: roundDouble_def)
next
  case False
  define e where "e = max (floorLog2 \<bar>of_int n\<bar>) (- 1022)"
  have "floorLog2 (of_int \<bar>n\<bar>) \<le> 52"
    using assms False by (intro floorLog2_int) auto
  then have e: "e \<le> 52" "- 1022 \<le> e"
    by (simp_all add: e_def)
  define j where "j = nat (52 - e)"
  have ulp: "pow2 (e - 52) = 1 / 2 ^ j"
    using e by (cases "e = 52") (simp_all add: pow2_def j_def)
  have "of_int n / pow2 (e - 52) = of_int (n * 2 ^ j)"
    by (simp add: ulp)
  then have r: "roundHalfEven (of_int n / pow2 (e - 52)) = n * 2 ^ j"
    by (simp only: roundHalfEven_of_int)
  have y: "of_int (n * 2 ^ j) * pow2 (e - 52) = of_int n"
    by (simp add: ulp)
  have "\<bar>(of_int n)::rat\<bar> < 2 ^ 53"
    using assms by (metis of_int_abs of_int_less_iff of_int_numeral of_int_power)
  also have "\<dots> \<le> pow2 1024"
    by (simp add: pow2_def)
  finally have small: "\<not> pow2 1024 \<le> \<bar>(of_int n)::rat\<bar>"
    by simp
  show ?thesis
    using False small
    by (simp add: roundDouble_def Let_def e_def [symmetric] r y del: of_int_mult of_int_power)
qed



lemma serialToDate_whole:
  assumes "excelEpoch p = ValidDate e"
    and "\<bar>d * 86400000\<bar> < 2 ^ 53"
    and "\<bar>e + d * 86400000\<bar> \<le> 8640000000000000"
  shows "serialToDate p (Finite (of_int d)) = ValidDate (e + d * 86400000)"
proof -
  have m: "jsMul (Finite (of_int d)) (Finite 86400000) = Finite (of_int (d * 86400000))"
    using roundDouble_of_int [OF assms(2)] by simp
  have "\<bar>e + d * 86400000\<bar> < 2 ^ 53"
    using assms(3) by simp
  then have a: "jsAdd (Finite (of_int e)) (Finite (of_int (d * 86400000)))
                  = Finite (of_int (e + d * 86400000))"
    using roundDouble_of_int [of "e + d * 86400000"] by simp
  show ?thesis
    unfolding serialToDate_def assms(1) getTime.simps m a newDateNumber_of_int
    using assms(3) by simp
qed

lemma utc_epoch: "excelEpoch utcHost = ValidDate (- 2209161600000)"
  by code_simp


text \<open>
  A serial with a fraction is rounded as the code rounds it: for the double nearest to
  \<open>44927.1\<close> the product with 86,400,000 and the sum with the epoch are each rounded to a
  double, which gives the time value \<open>1,672,539,840,000\<close> (the exact product and sum would
  end in \<open>839,999\<close>).
\<close>

lemma fraction_rounds:
  "roundDouble (449271 / 10) = Finite (6174733606531891 / 137438953472)
   \<and> serialToDate utcHost (Finite (6174733606531891 / 137438953472)) = ValidDate 1672539840000"
  by code_simp












section \<open>Properties of the numeric coercion\<close>

lemma takeWhile_none: "\<forall>c\<in>set xs. \<not> P c \<Longrightarrow> takeWhile P xs = []"
  by (cases xs) auto

lemma parseFloat_no_digit:
  assumes "\<forall>c\<in>set s. \<not> isDigit c"
  shows "parseFloat s = NaN"
proof -
  have a: "\<And>xs. set xs \<subseteq> set s \<Longrightarrow> takeWhile isDigit xs = []"
    using assms by (intro takeWhile_none) auto
  have t: "set (tl s) \<subseteq> set s"
    by (cases s) auto
  have d: "\<And>xs. set xs \<subseteq> set s \<Longrightarrow> set (dropWhile isDigit xs) \<subseteq> set s"
    using set_dropWhileD by fastforce
  have c: "\<And>xs x r. set xs \<subseteq> set s \<Longrightarrow> dropWhile isDigit xs = x # r \<Longrightarrow> takeWhile isDigit r = []"
  proof -
    fix xs x r assume "set xs \<subseteq> set s" and e: "dropWhile isDigit xs = x # r"
    then have "set (x # r) \<subseteq> set s" using d by metis
    then show "takeWhile isDigit r = []" by (intro a) auto
  qed
  show ?thesis
    unfolding parseFloat_def Let_def
    using a [of s] a [OF t] c [of s] c [OF t]
    by (auto split: list.splits)
qed

lemma strip_no_digit:
  "\<forall>c\<in>set s. \<not> isDigit c \<Longrightarrow> \<forall>c\<in>set (stripNonNumeric s). \<not> isDigit c"
  by (simp add: stripNonNumeric_def)

text \<open>
  C4 (as amended). The numeric coercion of \<^verbatim>\<open>route.ts\<close> returns null on failure:
  \<open>parseNumber(null)\<close>, \<open>parseNumber("")\<close> and \<open>parseNumber(undefined)\<close> are null, and so is
  \<open>parseNumber\<close> of every text whose stripped form does not parse as a decimal number, in
  particular of every text without a digit; the result is never 0 there. The coercion of
  \<^verbatim>\<open>part_000\<close> instead falls back to 0 (\<^verbatim>\<open>parseFloat(cleaned) || 0\<close>): a text that does not
  parse, and null, are stored as 0.
\<close>

theorem parseNumber_null_on_failure:
  "parseNumber JNull = JNull \<and> parseNumber (JString []) = JNull \<and> parseNumber JUndefined = JNull
   \<and> (parseFloat (stripNonNumeric s) = NaN \<longrightarrow> parseNumber (JString s) = JNull)
   \<and> ((\<forall>c\<in>set s. \<not> isDigit c) \<longrightarrow> parseNumber (JString s) = JNull)
   \<and> (parseFloat (stripNonNumeric s) = NaN \<longrightarrow> numericColumn_part000 p (JString s) = JNumber (Finite 0))
   \<and> numericColumn_part000 p JNull = JNumber (Finite 0)"
proof -
  have a: "parseFloat (stripNonNumeric s) = NaN \<Longrightarrow> parseNumber (JString s) = JNull"
    by (cases "s = []") (simp_all add: parseNumber_def isNaN_def)
  have b: "(\<forall>c\<in>set s. \<not> isDigit c) \<Longrightarrow> parseNumber (JString s) = JNull"
    using a parseFloat_no_digit [OF strip_no_digit] by blast
  have c: "parseFloat (stripNonNumeric s) = NaN
             \<Longrightarrow> numericColumn_part000 p (JString s) = JNumber (Finite 0)"
    by (simp add: numericColumn_part000_def cleaned_def isNaN_def)
  have "stripNonNumeric ''null'' = []"
    by (simp add: stripNonNumeric_def)
  then have d: "numericColumn_part000 p JNull = JNumber (Finite 0)"
    by (simp add: numericColumn_part000_def cleaned_def isNaN_def parseFloat_def)
  show ?thesis
    using a b c d by (simp add: parseNumber_def)
qed

theorem parseNumber_null_on_failure_witness:
  "parseNumber (JString ''N/A'') = JNull
     \<and> numericColumn_part000 utcHost (JString ''N/A'') = JNumber (Finite 0)
     \<and> numericColumn_part000 utcHost JNull = JNumber (Finite 0)"
proof -
  have "stripNonNumeric ''N/A'' = []"
    by (simp add: stripNonNumeric_def)
  then have "parseFloat (stripNonNumeric ''N/A'') = NaN"
    by (simp add: parseFloat_def)
  then show ?thesis
    using parseNumber_null_on_failure [of "''N/A''" utcHost]
    by (simp add: isDigit_def)
qed

text \<open>
  C4 as stated fails on the second handler: on a numeric column \<^verbatim>\<open>part_000\<close> stores 0 for
  a text that does not parse, for the empty text and for null.
\<close>

theorem parseNumber_part000_zero_counterexample:
  "numericColumn_part000 utcHost (JString ''N/A'') = JNumber (Finite 0)
     \<and> numericColumn_part000 utcHost (JString []) = JNumber (Finite 0)
     \<and> numericColumn_part000 utcHost JNull = JNumber (Finite 0)"
  by (simp add: numericColumn_part000_def cleaned_def isNaN_def parseFloat_def stripNonNumeric_def)

section \<open>Properties of the row transformer\<close>

lemma mappedRow_derived:
  "field (mappedRow p entity batchId row) ''year'' = fst (snd (invoiceDateFields p (cell row ''Invoice date'')))"
  "field (mappedRow p entity batchId row) ''quarter'' = snd (snd (invoiceDateFields p (cell row ''Invoice date'')))"
  "field (mappedRow p entity batchId row) ''invoice_date'' = fst (invoiceDateFields p (cell row ''Invoice date''))"
  by (simp_all add: mappedRow_def Let_def)

lemma transformLoop_rows:
  "m \<in> set (fst (transformLoop p entity batchId rawData i acc errs))
     \<Longrightarrow> m \<in> set acc \<or> (\<exists>row. Record row \<in> set rawData \<and> m = mappedRow p entity batchId row)"
proof (induction rawData arbitrary: i acc errs)
  case Nil
  then show ?case by simp
next
  case (Cons r rest)
  show ?case
  proof (cases r)
    case NullRow
    then show ?thesis
      using Cons.prems Cons.IH [of "i + 1" acc "errs @ [warning i typeErrorMessage]"]
      by (auto simp: mapRow_def Let_def split: if_splits)
  next
    case (Record row)
    then show ?thesis
      using Cons.prems Cons.IH [of "i + 1" "acc @ [mappedRow p entity batchId row]" errs]
      by (auto simp: mapRow_def)
  qed
qed

lemma coerceDate_falsy: "\<not> truthy v \<Longrightarrow> coerceDate p v = None"
  by (simp add: coerceDate_def)

lemma coerceDate_unparseable: "dateParse p s = InvalidDate \<Longrightarrow> coerceDate p (JString s) = None"
  by (simp add: coerceDate_def parsedDate_def)

lemma civil_19858: "civilFromDays 19858 = (2024, 5, 15)"
  by code_simp

lemma coerce_sample: "coerceDate utcHost (cell sampleRecord ''Invoice date'') = Some 1715731200000"
proof -
  have "serialToDate utcHost (Finite (of_int 45427)) = ValidDate (- 2209161600000 + 45427 * 86400000)"
    by (rule serialToDate_whole [OF utc_epoch]) simp_all
  then show ?thesis
    by (simp add: coerceDate_def parsedDate_def cell_def sampleRecord_def)
qed

lemma local_sample: "localDate utcHost 1715731200000 = (2024, 5, 15)"
  by (simp add: localDate_def utcHost_def msPerDay_def civil_19858)

lemma falsy_part000:
  "\<not> truthy v \<Longrightarrow> parseDateValue p v = None"
  by (simp add: parseDateValue_def)

lemma dateColumn_falsy: "\<not> truthy v \<Longrightarrow> dateColumn_part000 p v = Normal JNull"
  by (simp add: dateColumn_part000_def parseDateValue_def)

lemma invoiceDateValue_fallback:
  "\<not> truthy (getValue p row ''Invoice date'') \<Longrightarrow> invoiceDateValue p row = getValue p row ''Date''"
  by (simp add: invoiceDateValue_def)

lemma invoiceDateValue_first:
  "truthy (getValue p row ''Invoice date'') \<Longrightarrow> invoiceDateValue p row = getValue p row ''Invoice date''"
  by (simp add: invoiceDateValue_def)

lemma parseDateValue_unparseable:
  "dateParse p s = InvalidDate \<Longrightarrow> parseDateValue p (JString s) = None"
  by (simp add: parseDateValue_def isNaN_def)

lemma iso_date_only: "isoDateOnly ''2023-05-17'' = ValidDate 1684281600000"
  by code_simp

lemma civil_19494: "civilFromDays 19494 = (2023, 5, 17)"
  by code_simp

lemma getValue_dateOnly:
  "getValue utcHost dateOnlyRow ''Invoice date'' = JNull
   \<and> getValue utcHost dateOnlyRow ''Date'' = JString ''2023-05-17''"
  by code_simp

lemma getValue_zeroSerial:
  "getValue utcHost zeroSerialRow ''Invoice date'' = JNumber (Finite 0)
   \<and> getValue utcHost zeroSerialRow ''Date'' = JString ''2023-05-17''"
  by code_simp

lemma parse_2023_05_17:
  "parseDateValue utcHost (JString ''2023-05-17'') = Some (ValidDate 1684281600000)"
  by (simp add: parseDateValue_def utcHost_def iso_date_only isNaN_def)

lemma spec_2023_05_17:
  "getYearFromDate (specFormatters utcHost) (ValidDate 1684281600000) = JNumber (Finite 2023)
   \<and> getQuarterFromDate (specFormatters utcHost) (ValidDate 1684281600000) = JString ''Q2''"
  by (simp add: specFormatters_def getFullYear_def quarterOf_def getMonth_def localDate_def
        utcHost_def msPerDay_def civil_19494 showNat_small digitChar_def)


lemma yearQuarter_source:
  "yearQuarter_part000 f p xrow =
     (case parseDateValue p (invoiceDateValue p xrow) of
        None \<Rightarrow> (JNull, JNull)
      | Some dt \<Rightarrow> (getYearFromDate f dt, getQuarterFromDate f dt))"
  by (simp add: yearQuarter_part000_def)

lemma yearQuarter_spec:
  "fst (yearQuarter_part000 (specFormatters p) p xrow) = JNull
     \<longleftrightarrow> snd (yearQuarter_part000 (specFormatters p) p xrow) = JNull"
  by (simp add: yearQuarter_part000_def specFormatters_def split: option.split jsdate.split)

text \<open>
  C5 (as amended). In every row that the transformer of \<^verbatim>\<open>route.ts\<close> produces, \<open>year\<close> and
  \<open>quarter\<close> are both null or both derived from the one date the invoice-date cell coerces
  to: the year is its calendar year and the quarter is \<open>Q\<close> followed by
  \<open>floor(month / 3) + 1\<close>, for the month index from 0. One is null exactly when the other
  is. Both are null when the cell is absent or falsy, or is a text the date parser rejects.
  Every row of \<^verbatim>\<open>transformedData\<close> is the mapped row of a record of the sheet.

  In \<^verbatim>\<open>part_000\<close>, \<open>year\<close> and \<open>quarter\<close> are both null or both what \<^verbatim>\<open>getYearFromDate\<close> and
  \<^verbatim>\<open>getQuarterFromDate\<close> return for one date, the date of the source cell: the cell
  \<^verbatim>\<open>Invoice date\<close> or, when that is absent or falsy, the cell \<^verbatim>\<open>Date\<close>. Both are null when
  the source cell is falsy or is a text the date parser rejects. With the two formatters
  as the spec has them, one is null exactly when the other is, the year is the calendar
  year and the quarter is \<open>Q\<close> followed by \<open>floor(month / 3) + 1\<close>.
\<close>

theorem year_quarter_together:
  "(case coerceDate p (cell row ''Invoice date'') of
      None \<Rightarrow> field (mappedRow p entity batchId row) ''year'' = JNull
             \<and> field (mappedRow p entity batchId row) ''quarter'' = JNull
    | Some t \<Rightarrow> field (mappedRow p entity batchId row) ''year''
                 = JNumber (Finite (of_int (getFullYear p t)))
             \<and> field (mappedRow p entity batchId row) ''quarter''
                 = JString (''Q'' @ showNat (nat (getMonth p t div 3 + 1))))
   \<and> (field (mappedRow p entity batchId row) ''year'' = JNull
        \<longleftrightarrow> field (mappedRow p entity batchId row) ''quarter'' = JNull)
   \<and> (\<not> truthy (cell row ''Invoice date'') \<or> (\<exists>s. cell row ''Invoice date'' = JString s \<and> dateParse p s = InvalidDate)
        \<longrightarrow> field (mappedRow p entity batchId row) ''year'' = JNull
          \<and> field (mappedRow p entity batchId row) ''quarter'' = JNull)
   \<and> set (fst (transformLoop p entity batchId rawData 0 [] []))
        \<subseteq> {mappedRow p entity batchId r | r. Record r \<in> set rawData}
   \<and> (case parseDateValue p (invoiceDateValue p xrow) of
         None \<Rightarrow> yearQuarter_part000 f p xrow = (JNull, JNull)
       | Some dt \<Rightarrow> yearQuarter_part000 f p xrow = (getYearFromDate f dt, getQuarterFromDate f dt))
   \<and> (truthy (getValue p xrow ''Invoice date'')
        \<longrightarrow> invoiceDateValue p xrow = getValue p xrow ''Invoice date'')
   \<and> (\<not> truthy (getValue p xrow ''Invoice date'')
        \<longrightarrow> invoiceDateValue p xrow = getValue p xrow ''Date'')
   \<and> (\<not> truthy (invoiceDateValue p xrow)
         \<or> (\<exists>s. invoiceDateValue p xrow = JString s \<and> dateParse p s = InvalidDate)
        \<longrightarrow> yearQuarter_part000 f p xrow = (JNull, JNull))
   \<and> (fst (yearQuarter_part000 (specFormatters p) p xrow) = JNull
        \<longleftrightarrow> snd (yearQuarter_part000 (specFormatters p) p xrow) = JNull)
   \<and> (parseDateValue p (invoiceDateValue p xrow) = Some (ValidDate t)
        \<longrightarrow> yearQuarter_part000 (specFormatters p) p xrow
              = (JNumber (Finite (of_int (getFullYear p t))),
                 JString (''Q'' @ showNat (nat (getMonth p t div 3 + 1)))))"
proof -
  have a: "(case coerceDate p (cell row ''Invoice date'') of
      None \<Rightarrow> field (mappedRow p entity batchId row) ''year'' = JNull
             \<and> field (mappedRow p entity batchId row) ''quarter'' = JNull
    | Some t \<Rightarrow> field (mappedRow p entity batchId row) ''year''
                 = JNumber (Finite (of_int (getFullYear p t)))
             \<and> field (mappedRow p entity batchId row) ''quarter''
                 = JString (''Q'' @ showNat (nat (getMonth p t div 3 + 1))))"
    by (simp add: mappedRow_derived invoiceDateFields_def quarterOf_def split: option.split)
  then have b: "field (mappedRow p entity batchId row) ''year'' = JNull
        \<longleftrightarrow> field (mappedRow p entity batchId row) ''quarter'' = JNull"
    by (cases "coerceDate p (cell row ''Invoice date'')") simp_all
  have c: "\<not> truthy (cell row ''Invoice date'') \<or> (\<exists>s. cell row ''Invoice date'' = JString s \<and> dateParse p s = InvalidDate)
        \<longrightarrow> field (mappedRow p entity batchId row) ''year'' = JNull
          \<and> field (mappedRow p entity batchId row) ''quarter'' = JNull"
    using a coerceDate_falsy [of "cell row ''Invoice date''" p] coerceDate_unparseable [of p]
    by auto
  have d: "set (fst (transformLoop p entity batchId rawData 0 [] []))
        \<subseteq> {mappedRow p entity batchId r | r. Record r \<in> set rawData}"
    using transformLoop_rows [of _ p entity batchId rawData 0 "[]" "[]"] by auto
  have e: "(case parseDateValue p (invoiceDateValue p xrow) of
         None \<Rightarrow> yearQuarter_part000 f p xrow = (JNull, JNull)
       | Some dt \<Rightarrow> yearQuarter_part000 f p xrow = (getYearFromDate f dt, getQuarterFromDate f dt))"
    by (simp add: yearQuarter_source split: option.split)
  have g: "truthy (getValue p xrow ''Invoice date'')
        \<longrightarrow> invoiceDateValue p xrow = getValue p xrow ''Invoice date''"
    by (simp add: invoiceDateValue_first)
  have h: "\<not> truthy (getValue p xrow ''Invoice date'')
        \<longrightarrow> invoiceDateValue p xrow = getValue p xrow ''Date''"
    by (simp add: invoiceDateValue_fallback)
  have i: "\<not> truthy (invoiceDateValue p xrow)
         \<or> (\<exists>s. invoiceDateValue p xrow = JString s \<and> dateParse p s = InvalidDate)
        \<longrightarrow> yearQuarter_part000 f p xrow = (JNull, JNull)"
    using falsy_part000 [of "invoiceDateValue p xrow" p] parseDateValue_unparseable [of p]
    by (auto simp: yearQuarter_source)
  have j: "fst (yearQuarter_part000 (specFormatters p) p xrow) = JNull
        \<longleftrightarrow> snd (yearQuarter_part000 (specFormatters p) p xrow) = JNull"
    by (rule yearQuarter_spec)
  have k: "parseDateValue p (invoiceDateValue p xrow) = Some (ValidDate t)
        \<longrightarrow> yearQuarter_part000 (specFormatters p) p xrow
              = (JNumber (Finite (of_int (getFullYear p t))),
                 JString (''Q'' @ showNat (nat (getMonth p t div 3 + 1))))"
    by (simp add: yearQuarter_source specFormatters_def quarterOf_def)
  show ?thesis
    using a b c d e g h i j k by blast
qed

theorem year_quarter_together_witness:
  "field (mappedRow utcHost ''USA'' [] sampleRecord) ''year'' = JNumber (Finite 2024)
     \<and> field (mappedRow utcHost ''USA'' [] sampleRecord) ''quarter'' = JString ''Q2''
     \<and> field (mappedRow utcHost ''USA'' [] zeroSerialRecord) ''year'' = JNull
     \<and> field (mappedRow utcHost ''USA'' [] zeroSerialRecord) ''quarter'' = JNull
     \<and> yearQuarter_part000 (specFormatters utcHost) utcHost blankDateRow = (JNull, JNull)"
proof -
  have z: "\<not> truthy (cell zeroSerialRecord ''Invoice date'')"
    by (simp add: cell_def zeroSerialRecord_def)
  have v: "invoiceDateValue utcHost blankDateRow = JNull"
    by code_simp
  note s = year_quarter_together [where p = utcHost and row = sampleRecord and entity = "''USA''"
            and batchId = "[]" and rawData = "[]" and xrow = blankDateRow
            and f = "specFormatters utcHost"]
  note n = year_quarter_together [where p = utcHost and row = zeroSerialRecord and entity = "''USA''"
            and batchId = "[]" and rawData = "[]" and xrow = blankDateRow
            and f = "specFormatters utcHost"]
  have "field (mappedRow utcHost ''USA'' [] sampleRecord) ''year'' = JNumber (Finite 2024)
     \<and> field (mappedRow utcHost ''USA'' [] sampleRecord) ''quarter'' = JString ''Q2''"
    using s [THEN conjunct1]
    by (simp add: coerce_sample getFullYear_def getMonth_def local_sample showNat_small digitChar_def)
  moreover have "field (mappedRow utcHost ''USA'' [] zeroSerialRecord) ''year'' = JNull
     \<and> field (mappedRow utcHost ''USA'' [] zeroSerialRecord) ''quarter'' = JNull"
    using n z by blast
  moreover have "yearQuarter_part000 (specFormatters utcHost) utcHost blankDateRow = (JNull, JNull)"
    using s v by simp
  ultimately show ?thesis
    by blast
qed

text \<open>
  C5 as stated fails on \<^verbatim>\<open>part_000\<close> for a row whose invoice date is absent: the row has no
  column \<^verbatim>\<open>Invoice date\<close> and its field \<^verbatim>\<open>invoice_date\<close> is null, but \<open>year\<close> and \<open>quarter\<close> are
  set, from the column \<^verbatim>\<open>Date\<close>.
\<close>

theorem year_quarter_from_date_column_counterexample:
  "getValue utcHost dateOnlyRow ''Invoice date'' = JNull
   \<and> dateColumn_part000 utcHost (getValue utcHost dateOnlyRow ''Invoice date'') = Normal JNull
   \<and> yearQuarter_part000 (specFormatters utcHost) utcHost dateOnlyRow
        = (JNumber (Finite 2023), JString ''Q2'')"
  using getValue_dateOnly spec_2023_05_17
  by (simp add: dateColumn_falsy yearQuarter_part000_def invoiceDateValue_def parse_2023_05_17)

text \<open>
  C10 (as amended). An invoice-date cell that is falsy (the number 0, the empty text, null;
  also a missing cell) is not coerced at all: the guard \<^verbatim>\<open>if (row['Invoice date'])\<close> of
  \<^verbatim>\<open>route.ts\<close> and the guard \<^verbatim>\<open>if (!value) return null\<close> of \<^verbatim>\<open>parseDateValue\<close> come first, so
  the serial 0 never becomes the epoch date. In \<^verbatim>\<open>route.ts\<close> the row's invoice date, year
  and quarter are then null. In \<^verbatim>\<open>part_000\<close> the field \<^verbatim>\<open>invoice_date\<close> is null, and \<open>year\<close> and
  \<open>quarter\<close> are those of the cell \<^verbatim>\<open>Date\<close>: null when that cell is falsy too, derived from
  its date otherwise.
\<close>

theorem falsy_invoice_date_null:
  assumes "\<not> truthy (cell row ''Invoice date'')"
    and "\<not> truthy (getValue p xrow ''Invoice date'')"
  shows "coerceDate p (cell row ''Invoice date'') = None
       \<and> field (mappedRow p entity batchId row) ''invoice_date'' = JNull
       \<and> field (mappedRow p entity batchId row) ''year'' = JNull
       \<and> field (mappedRow p entity batchId row) ''quarter'' = JNull
       \<and> parseDateValue p (getValue p xrow ''Invoice date'') = None
       \<and> dateColumn_part000 p (getValue p xrow ''Invoice date'') = Normal JNull
       \<and> yearQuarter_part000 f p xrow
           = (case parseDateValue p (getValue p xrow ''Date'') of
                None \<Rightarrow> (JNull, JNull)
              | Some dt \<Rightarrow> (getYearFromDate f dt, getQuarterFromDate f dt))
       \<and> (\<not> truthy (getValue p xrow ''Date'') \<longrightarrow> yearQuarter_part000 f p xrow = (JNull, JNull))
       \<and> \<not> truthy (JNumber (Finite 0)) \<and> \<not> truthy (JString []) \<and> \<not> truthy JNull"
proof -
  have r: "coerceDate p (cell row ''Invoice date'') = None
       \<and> field (mappedRow p entity batchId row) ''invoice_date'' = JNull
       \<and> field (mappedRow p entity batchId row) ''year'' = JNull
       \<and> field (mappedRow p entity batchId row) ''quarter'' = JNull"
    using assms(1) by (simp add: mappedRow_derived invoiceDateFields_def coerceDate_def)
  have a: "parseDateValue p (getValue p xrow ''Invoice date'') = None"
    using assms(2) by (rule falsy_part000)
  have b: "dateColumn_part000 p (getValue p xrow ''Invoice date'') = Normal JNull"
    using assms(2) by (rule dateColumn_falsy)
  have c: "yearQuarter_part000 f p xrow
           = (case parseDateValue p (getValue p xrow ''Date'') of
                None \<Rightarrow> (JNull, JNull)
              | Some dt \<Rightarrow> (getYearFromDate f dt, getQuarterFromDate f dt))"
    using invoiceDateValue_fallback [OF assms(2)] by (simp add: yearQuarter_source)
  have d: "\<not> truthy (getValue p xrow ''Date'') \<longrightarrow> yearQuarter_part000 f p xrow = (JNull, JNull)"
    using c falsy_part000 [of "getValue p xrow ''Date''" p] by simp
  show ?thesis
    using r a b c d by simp
qed

theorem falsy_invoice_date_null_witness:
  "cell zeroSerialRecord ''Invoice date'' = JNumber (Finite 0)
     \<and> field (mappedRow utcHost ''USA'' [] zeroSerialRecord) ''invoice_date'' = JNull
     \<and> field (mappedRow utcHost ''USA'' [] zeroSerialRecord) ''year'' = JNull
     \<and> field (mappedRow utcHost ''USA'' [] zeroSerialRecord) ''quarter'' = JNull
     \<and> getValue utcHost blankDateRow ''Invoice date'' = JString []
     \<and> dateColumn_part000 utcHost (getValue utcHost blankDateRow ''Invoice date'') = Normal JNull
     \<and> yearQuarter_part000 (specFormatters utcHost) utcHost blankDateRow = (JNull, JNull)
     \<and> parseDate utcHost (JNumber (Finite 0)) = ValidDate (- 2209161600000)"
proof -
  have c: "cell zeroSerialRecord ''Invoice date'' = JNumber (Finite 0)"
    by (simp add: cell_def zeroSerialRecord_def)
  have g: "getValue utcHost blankDateRow ''Invoice date'' = JString []"
    and d: "getValue utcHost blankDateRow ''Date'' = JNull"
    by code_simp+
  have "serialToDate utcHost (Finite (of_int 0)) = ValidDate (- 2209161600000 + 0 * 86400000)"
    by (rule serialToDate_whole [OF utc_epoch]) simp_all
  then have e: "parseDate utcHost (JNumber (Finite 0)) = ValidDate (- 2209161600000)"
    by (simp add: parseDate_def)
  have z1: "\<not> truthy (cell zeroSerialRecord ''Invoice date'')"
    by (simp add: c)
  have z2: "\<not> truthy (getValue utcHost blankDateRow ''Invoice date'')"
    by (simp add: g)
  have z3: "\<not> truthy (getValue utcHost blankDateRow ''Date'')"
    by (simp add: d)
  note h = falsy_invoice_date_null [where p = utcHost and entity = "''USA''" and batchId = "[]"
             and f = "specFormatters utcHost", OF z1 z2]
  have "field (mappedRow utcHost ''USA'' [] zeroSerialRecord) ''invoice_date'' = JNull
     \<and> field (mappedRow utcHost ''USA'' [] zeroSerialRecord) ''year'' = JNull
     \<and> field (mappedRow utcHost ''USA'' [] zeroSerialRecord) ''quarter'' = JNull"
    using h by blast
  moreover have "dateColumn_part000 utcHost (getValue utcHost blankDateRow ''Invoice date'') = Normal JNull"
    using h by blast
  moreover have "yearQuarter_part000 (specFormatters utcHost) utcHost blankDateRow = (JNull, JNull)"
    using h z3 by blast
  ultimately show ?thesis
    using c g e by blast
qed

text \<open>
  C10 as stated fails on \<^verbatim>\<open>part_000\<close> for a row with the serial 0 as invoice date beside a
  column \<^verbatim>\<open>Date\<close>: the field \<^verbatim>\<open>invoice_date\<close> is null, but \<open>year\<close> and \<open>quarter\<close> are set, from
  the column \<^verbatim>\<open>Date\<close>.
\<close>

theorem zero_serial_year_from_date_column_counterexample:
  "getValue utcHost zeroSerialRow ''Invoice date'' = JNumber (Finite 0)
   \<and> dateColumn_part000 utcHost (getValue utcHost zeroSerialRow ''Invoice date'') = Normal JNull
   \<and> yearQuarter_part000 (specFormatters utcHost) utcHost zeroSerialRow
        = (JNumber (Finite 2023), JString ''Q2'')"
  using getValue_zeroSerial spec_2023_05_17
  by (simp add: dateColumn_falsy yearQuarter_part000_def invoiceDateValue_def parse_2023_05_17)



lemma transformLoop_at_cap:
  "isl (mapRow p e b r) \<Longrightarrow> length errs + length (warningsOf p e b i pre) = 9
     \<Longrightarrow> transformLoop p e b (pre @ r # post) i acc errs
          = (acc @ rowsOf p e b pre, errs @ warningsOf p e b i (pre @ [r]) @ [suppressed])"
proof (induction pre arbitrary: i acc errs)
  case Nil
  then show ?case by (cases "mapRow p e b r") (simp_all add: Let_def)
next
  case (Cons x pre)
  show ?case
  proof (cases "mapRow p e b x")
    case (Inl msg)
    then have "length (errs @ [warning i msg]) + length (warningsOf p e b (i + 1) pre) = 9"
      using Cons.prems(2) by simp
    from Cons.IH [OF Cons.prems(1) this] show ?thesis
      using Inl Cons.prems(2) by (simp add: Let_def)
  next
    case (Inr m)
    then have "length errs + length (warningsOf p e b (i + 1) pre) = 9"
      using Cons.prems(2) by simp
    from Cons.IH [OF Cons.prems(1) this] show ?thesis
      using Inr by simp
  qed
qed

text \<open>
  What the loop does at the tenth warning is the lemma above: it appends the marker and
  stops. On the records of a sheet the block of a row does not throw:
\<close>

lemma transformLoop_records:
  "transformLoop p e b (map Record rs) i acc errs = (acc @ map (mappedRow p e b) rs, errs)"
  by (induction rs arbitrary: i acc) (simp_all add: mapRow_def)





section \<open>Properties of the orchestrator\<close>

lemma perform_fst [simp]: "fst (perform store c w) = store (length (trace w))"
  by (simp add: perform_def Let_def)

lemma perform_trace [simp]:
  "trace (snd (perform store c w)) = trace w @ [(c, store (length (trace w)))]"
  by (simp add: perform_def Let_def)

lemma perform_progress [simp]: "progress (snd (perform store c w)) = progress w"
  by (simp add: perform_def Let_def)

lemma perform_db [simp]:
  "db (snd (perform store c w)) = (if store (length (trace w)) = Ok then applyCall c (db w) else db w)"
  by (simp add: perform_def Let_def)

text \<open>
  C9. A request whose entity is absent or is not one of HQ, USA, BWA, Vietnam, Healthcare,
  Korot is answered at once with status 400 (for the missing file, if that is missing
  too, otherwise for the entity): \<^verbatim>\<open>batchId\<close> is still empty, no call to the store has been
  issued and the database is as it was.
\<close>

theorem invalid_entity_rejected:
  assumes "formEntity req = None \<or> (\<exists>e. formEntity req = Some e \<and> e \<notin> set validEntities)"
  shows "\<exists>err. POST p store uuid req d
            = (ErrorResponse 400 err None None, [], 0, \<lparr>db = d, trace = [], progress = []\<rparr>)"
  using assms
  by (auto simp: POST_def tryBlock_def prepare_def split: option.splits)

theorem invalid_entity_rejected_witness:
  "POST utcHost reliable ''b1'' (sampleRequest ''Mars'' [Record sampleRecord]) emptyDatabase
    = (ErrorResponse 400 ''Invalid entity: Mars'' None None, [], 0,
       \<lparr>db = emptyDatabase, trace = [], progress = []\<rparr>)"
  using invalid_entity_rejected [where req = "sampleRequest ''Mars'' [Record sampleRecord]"
          and p = utcHost and store = reliable and uuid = "''b1''" and d = emptyDatabase]
  by (simp add: POST_def tryBlock_def prepare_def sampleRequest_def validEntities_def)


lemma insertLoop_done:
  "\<not> i < length xs \<Longrightarrow> insertLoop store b xs i t w = (Normal None, t, w)"
  by (subst insertLoop.simps) simp

lemma insertLoop_ok:
  "i < length xs \<Longrightarrow> store (length (trace w)) = Ok \<Longrightarrow>
   insertLoop store b xs i t w =
     insertLoop store b xs (i + CHUNK_SIZE) (t + length (slice xs i (i + CHUNK_SIZE)))
       ((snd (perform store (InsertSales (slice xs i (i + CHUNK_SIZE))) w))
          \<lparr>progress := progress w @ [t + length (slice xs i (i + CHUNK_SIZE))]\<rparr>)"
  by (subst insertLoop.simps) (simp add: Let_def)

lemma insertLoop_failed:
  "i < length xs \<Longrightarrow> store (length (trace w)) = Failed e \<Longrightarrow>
   insertLoop store b xs i t w =
     (let u = perform store (UpdateHistory b ''failed'' (Some (err_message e)))
                (snd (perform store (InsertSales (slice xs i (i + CHUNK_SIZE))) w))
      in case fst u of
           Thrown msg \<Rightarrow> (Throws msg, t, snd u)
         | _ \<Rightarrow> (Normal (Some (ErrorResponse 500 ''Database insert failed''
                                (Some (Message (err_message e))) (err_hint e))), t, snd u))"
  by (subst insertLoop.simps) (simp add: Let_def)

lemma insertLoop_thrown:
  "i < length xs \<Longrightarrow> store (length (trace w)) = Thrown msg \<Longrightarrow>
   insertLoop store b xs i t w
     = (Throws msg, t, snd (perform store (InsertSales (slice xs i (i + CHUNK_SIZE))) w))"
  by (subst insertLoop.simps) (simp add: Let_def)

lemma slice_nonempty: "i < length xs \<Longrightarrow> 0 < length (slice xs i (i + CHUNK_SIZE))"
  by (simp add: slice_def CHUNK_SIZE_def)

lemma chunk_measure: "i < length xs \<Longrightarrow> length xs - (i + CHUNK_SIZE) < length xs - i"
  by (simp add: CHUNK_SIZE_def)

text \<open>The trace only grows, in the order of the chunks.\<close>

lemma insertLoop_sequential:
  "insertLoop store b xs i t w = (r, t', w')
     \<Longrightarrow> \<exists>ext. trace w' = trace w @ ext \<and> sequential xs i ext"
proof (induction "length xs - i" arbitrary: i t w rule: less_induct)
  case less
  show ?case
  proof (cases "i < length xs")
    case False
    then show ?thesis using less.prems by (simp add: insertLoop_done)
  next
    case True
    let ?c = "slice xs i (i + CHUNK_SIZE)"
    show ?thesis
    proof (cases "store (length (trace w))")
      case Ok
      let ?w1 = "(snd (perform store (InsertSales ?c) w))\<lparr>progress := progress w @ [t + length ?c]\<rparr>"
      have "insertLoop store b xs (i + CHUNK_SIZE) (t + length ?c) ?w1 = (r, t', w')"
        using less.prems insertLoop_ok [where store = store and w = w, OF True Ok] by simp
      from less.hyps [OF chunk_measure [OF True] this]
      obtain ext where e: "trace w' = trace ?w1 @ ext" "sequential xs (i + CHUNK_SIZE) ext"
        by blast
      have "trace w' = trace w @ ((InsertSales ?c, Ok) # ext)"
        using e(1) Ok by simp
      moreover have "sequential xs i ((InsertSales ?c, Ok) # ext)"
        using e(2) by simp
      ultimately show ?thesis by blast
    next
      case (Failed e)
      then show ?thesis
        using less.prems True
        by (auto simp: insertLoop_failed Let_def split: outcome.splits)
    next
      case (Thrown msg)
      then show ?thesis
        using less.prems True by (auto simp: insertLoop_thrown)
    qed
  qed
qed

text \<open>The progress lines increase strictly and stay at or below the counter.\<close>

lemma insertLoop_progress:
  "insertLoop store b xs i t w = (r, t', w') \<Longrightarrow> sorted_wrt (<) (progress w)
     \<Longrightarrow> \<forall>x\<in>set (progress w). x \<le> t
     \<Longrightarrow> sorted_wrt (<) (progress w') \<and> (\<forall>x\<in>set (progress w'). x \<le> t') \<and> t \<le> t'"
proof (induction "length xs - i" arbitrary: i t w rule: less_induct)
  case less
  show ?case
  proof (cases "i < length xs")
    case False
    then show ?thesis using less.prems by (simp add: insertLoop_done)
  next
    case True
    let ?c = "slice xs i (i + CHUNK_SIZE)"
    show ?thesis
    proof (cases "store (length (trace w))")
      case Ok
      let ?w1 = "(snd (perform store (InsertSales ?c) w))\<lparr>progress := progress w @ [t + length ?c]\<rparr>"
      have run: "insertLoop store b xs (i + CHUNK_SIZE) (t + length ?c) ?w1 = (r, t', w')"
        using less.prems(1) insertLoop_ok [where store = store and w = w, OF True Ok] by simp
      have pos: "0 < length ?c"
        using slice_nonempty [OF True] .
      have "\<forall>x\<in>set (progress w). x < t + length ?c"
      proof
        fix x assume "x \<in> set (progress w)"
        then have "x \<le> t" using less.prems(3) by blast
        then show "x < t + length ?c" using pos by linarith
      qed
      then have s: "sorted_wrt (<) (progress ?w1)"
        using less.prems(2) by (simp add: sorted_wrt_append)
      have b: "\<forall>x\<in>set (progress ?w1). x \<le> t + length ?c"
        using less.prems(3) by auto
      from less.hyps [OF chunk_measure [OF True] run s b] show ?thesis
        by simp
    next
      case (Failed e)
      then show ?thesis
        using less.prems True
        by (auto simp: insertLoop_failed Let_def split: outcome.splits)
    next
      case (Thrown msg)
      then show ?thesis
        using less.prems True by (auto simp: insertLoop_thrown)
    qed
  qed
qed

text \<open>How the loop can end.\<close>

lemma insertLoop_response:
  "insertLoop store b xs i t w = (Normal (Some resp), t', w')
     \<Longrightarrow> \<exists>w0 (e::db_error). w' = snd (perform store (UpdateHistory b ''failed'' (Some (err_message e))) w0)
            \<and> resp = ErrorResponse 500 ''Database insert failed''
                        (Some (Message (err_message e))) (err_hint e)"
proof (induction "length xs - i" arbitrary: i t w rule: less_induct)
  case less
  show ?case
  proof (cases "i < length xs")
    case False
    then show ?thesis using less.prems by (simp add: insertLoop_done)
  next
    case True
    let ?c = "slice xs i (i + CHUNK_SIZE)"
    show ?thesis
    proof (cases "store (length (trace w))")
      case Ok
      let ?w1 = "(snd (perform store (InsertSales ?c) w))\<lparr>progress := progress w @ [t + length ?c]\<rparr>"
      have run: "insertLoop store b xs (i + CHUNK_SIZE) (t + length ?c) ?w1 = (Normal (Some resp), t', w')"
        using less.prems(1) insertLoop_ok [where store = store and w = w, OF True Ok] by simp
      from less.hyps [OF chunk_measure [OF True] run] show ?thesis .
    next
      case (Failed e)
      have a: "w' = snd (perform store (UpdateHistory b ''failed'' (Some (err_message e)))
                        (snd (perform store (InsertSales ?c) w)))"
        and b: "resp = ErrorResponse 500 ''Database insert failed''
                      (Some (Message (err_message e))) (err_hint e)"
        using less.prems True Failed
        by (auto simp: insertLoop_failed Let_def split: outcome.splits)
      show ?thesis
        using a b by blast
    next
      case (Thrown msg)
      then show ?thesis
        using less.prems True by (auto simp: insertLoop_thrown)
    qed
  qed
qed

lemma afterChunks_zero: "afterChunks xs i 0 t w = w"
  by (simp add: afterChunks_def)

lemma insertLoop_ok_steps:
  assumes "\<forall>j<k. store (length (trace w) + j) = Ok"
    and "\<forall>j<k. i + j * CHUNK_SIZE < length xs"
  shows "insertLoop store b xs i t w
           = insertLoop store b xs (i + k * CHUNK_SIZE) (t + sum_list (map length (chunks xs i k)))
               (afterChunks xs i k t w)"
  using assms
proof (induction k arbitrary: i t w)
  case 0
  then show ?case by (simp add: afterChunks_zero)
next
  case (Suc k)
  let ?c = "slice xs i (i + CHUNK_SIZE)"
  let ?w1 = "(snd (perform store (InsertSales ?c) w))\<lparr>progress := progress w @ [t + length ?c]\<rparr>"
  have i: "i < length xs"
    using Suc.prems(2) by force
  have ok: "store (length (trace w)) = Ok"
    using Suc.prems(1) by force
  have step: "insertLoop store b xs i t w
                = insertLoop store b xs (i + CHUNK_SIZE) (t + length ?c) ?w1"
    using insertLoop_ok [where store = store and w = w, OF i ok] .
  have a: "\<forall>j<k. store (length (trace ?w1) + j) = Ok"
  proof (intro allI impI)
    fix j assume "j < k"
    then have "store (length (trace w) + Suc j) = Ok"
      using Suc.prems(1) by (metis Suc_less_eq)
    then show "store (length (trace ?w1) + j) = Ok" by simp
  qed
  have b: "\<forall>j<k. (i + CHUNK_SIZE) + j * CHUNK_SIZE < length xs"
  proof (intro allI impI)
    fix j assume "j < k"
    then have "i + Suc j * CHUNK_SIZE < length xs"
      using Suc.prems(2) by (metis Suc_less_eq)
    then show "(i + CHUNK_SIZE) + j * CHUNK_SIZE < length xs" by (simp add: add.commute add.left_commute)
  qed
  have w: "afterChunks xs (i + CHUNK_SIZE) k (t + length ?c) ?w1 = afterChunks xs i (Suc k) t w"
    using ok by (simp add: afterChunks_def perform_def Let_def)
  show ?case
    using Suc.IH [OF a b, of "t + length ?c"] step w
    by (simp add: add.assoc add.commute add.left_commute)
qed

lemma chunks_concat: "concat (chunks xs i k) = take (k * CHUNK_SIZE) (drop i xs)"
proof (induction k arbitrary: i)
  case 0
  then show ?case by simp
next
  case (Suc k)
  have "take (CHUNK_SIZE + k * CHUNK_SIZE) (drop i xs)
          = take CHUNK_SIZE (drop i xs) @ take (k * CHUNK_SIZE) (drop CHUNK_SIZE (drop i xs))"
    by (rule take_add)
  then show ?case
    using Suc.IH [of "i + CHUNK_SIZE"] by (simp add: slice_def add.commute)
qed

lemma chunks_full:
  "i + k * CHUNK_SIZE \<le> length xs \<Longrightarrow> map length (chunks xs i k) = replicate k CHUNK_SIZE"
proof (induction k arbitrary: i)
  case 0
  then show ?case by simp
next
  case (Suc k)
  then have "(i + CHUNK_SIZE) + k * CHUNK_SIZE \<le> length xs"
    by (simp add: add.commute add.left_commute)
  from Suc.IH [OF this] show ?case
    using Suc.prems by (simp add: slice_def)
qed

lemma chunks_snoc:
  "chunks xs i (Suc k) = chunks xs i k @ [slice xs (i + k * CHUNK_SIZE) (i + k * CHUNK_SIZE + CHUNK_SIZE)]"
proof (induction k arbitrary: i)
  case 0
  then show ?case by simp
next
  case (Suc k)
  show ?case
    using Suc.IH [of "i + CHUNK_SIZE"] by (simp add: add.assoc add.left_commute)
qed

lemma chunks_length [simp]: "length (chunks xs i k) = k"
  by (induction k arbitrary: i) simp_all

lemma stamped_length [simp]: "length (stamped b xs) = length xs"
  by (simp add: stamped_def)

lemma prepare_sample:
  "rs \<noteq> [] \<Longrightarrow> entity \<in> set validEntities \<Longrightarrow>
   prepare p (sampleRequest entity (map Record rs))
     = Inr (entity, ''sales.xlsx'', map (mappedRow p entity []) rs, [])"
  by (auto simp: prepare_def sampleRequest_def transformLoop_records MAX_FILE_SIZE_def
        validTypes_def validEntities_def)

lemma sample_501:
  "prepare utcHost (sampleRequest ''USA'' (map Record (replicate 501 sampleRecord)))
     = Inr (''USA'', ''sales.xlsx'', map (mappedRow utcHost ''USA'' []) (replicate 501 sampleRecord), [])"
  by (rule prepare_sample) (simp_all add: validEntities_def)

lemma refusedRun_trace:
  assumes hist: "store 0 = Ok" and fails: "store (Suc k) = Failed e"
  shows "trace (refusedRun store uuid entity name data k e d)
           = (InsertHistory (processingRecord uuid entity name (length data)), Ok)
             # map (\<lambda>c. (InsertSales c, Ok)) (chunks (stamped uuid data) 0 k)
             @ [(InsertSales (slice (stamped uuid data) (k * CHUNK_SIZE) (k * CHUNK_SIZE + CHUNK_SIZE)),
                 Failed e),
                (UpdateHistory uuid ''failed'' (Some (err_message e)), store (Suc (Suc k)))]"
  using hist fails by (simp add: refusedRun_def afterChunks_def)

lemma refusedRun_db:
  assumes hist: "store 0 = Ok" and fails: "store (Suc k) = Failed e"
  shows "db (refusedRun store uuid entity name data k e d)
           = (let dk = d\<lparr>upload_history := upload_history d
                                             @ [processingRecord uuid entity name (length data)],
                          sales_data := sales_data d @ take (k * CHUNK_SIZE) (stamped uuid data)\<rparr>
              in if store (Suc (Suc k)) = Ok
                 then applyCall (UpdateHistory uuid ''failed'' (Some (err_message e))) dk
                 else dk)"
proof -
  define w where "w = snd (perform store
               (InsertSales (slice (stamped uuid data) (k * CHUNK_SIZE) (k * CHUNK_SIZE + CHUNK_SIZE)))
               (afterChunks (stamped uuid data) 0 k 0
                  (snd (perform store
                          (InsertHistory (processingRecord uuid entity name (length data)))
                          \<lparr>db = d, trace = [], progress = []\<rparr>))))"
  have "db w = d\<lparr>upload_history := upload_history d
                                     @ [processingRecord uuid entity name (length data)],
                  sales_data := sales_data d @ take (k * CHUNK_SIZE) (stamped uuid data)\<rparr>"
    using hist fails by (simp add: w_def afterChunks_def chunks_concat)
  moreover have "length (trace w) = Suc (Suc k)"
    by (simp add: w_def afterChunks_def)
  ultimately show ?thesis
    unfolding refusedRun_def w_def [symmetric]
    by (simp add: Let_def del: applyCall.simps)
qed

lemma chunk_failure_run:
  fixes e :: db_error
  assumes prep: "prepare p req = Inr (entity, name, data, errs)"
    and hist: "store 0 = Ok"
    and before: "\<forall>j<k. store (Suc j) = Ok"
    and exists: "k * CHUNK_SIZE < length data"
    and fails: "store (Suc k) = Failed e"
  shows "POST p store uuid req d =
           (case store (Suc (Suc k)) of
              Thrown m \<Rightarrow>
                (ErrorResponse 500 ''Internal server error'' (Some (Message m)) None, uuid,
                 k * CHUNK_SIZE,
                 if uuid \<noteq> []
                 then snd (perform store (UpdateHistory uuid ''failed'' (Some m))
                             (refusedRun store uuid entity name data k e d))
                 else refusedRun store uuid entity name data k e d)
            | _ \<Rightarrow>
                (ErrorResponse 500 ''Database insert failed'' (Some (Message (err_message e)))
                   (err_hint e), uuid, k * CHUNK_SIZE,
                 refusedRun store uuid entity name data k e d))"
proof -
  define xs where "xs = stamped uuid data"
  define h where "h = processingRecord uuid entity name (length data)"
  define w0 where "w0 = \<lparr>db = d, trace = [], progress = []\<rparr>"
  define w1 where "w1 = snd (perform store (InsertHistory h) w0)"
  define wk where "wk = afterChunks xs 0 k 0 w1"
  define c where "c = slice xs (k * CHUNK_SIZE) (k * CHUNK_SIZE + CHUNK_SIZE)"
  define wf where "wf = snd (perform store (InsertSales c) wk)"
  define wu where "wu = snd (perform store (UpdateHistory uuid ''failed'' (Some (err_message e))) wf)"
  define resp where "resp = ErrorResponse 500 ''Database insert failed''
                              (Some (Message (err_message e))) (err_hint e)"
  have wu: "refusedRun store uuid entity name data k e d = wu"
    by (simp add: refusedRun_def wu_def wf_def c_def wk_def w1_def w0_def h_def xs_def)
  have len: "length xs = length data"
    by (simp add: xs_def)
  have t1: "trace w1 = [(InsertHistory h, Ok)]"
    using hist by (simp add: w1_def w0_def)
  have a: "\<forall>j<k. store (length (trace w1) + j) = Ok"
    using before t1 by simp
  have b: "\<forall>j<k. 0 + j * CHUNK_SIZE < length xs"
  proof (intro allI impI)
    fix j assume "j < k"
    then have "j * CHUNK_SIZE \<le> k * CHUNK_SIZE" by (simp add: mult_le_mono1)
    then show "0 + j * CHUNK_SIZE < length xs" using exists len by linarith
  qed
  have full: "map length (chunks xs 0 k) = replicate k CHUNK_SIZE"
    using chunks_full [of 0 k xs] exists len by simp
  have loop1: "insertLoop store uuid xs 0 0 w1
                 = insertLoop store uuid xs (k * CHUNK_SIZE) (k * CHUNK_SIZE) wk"
    using insertLoop_ok_steps [OF a b, of uuid 0] full
    by (simp add: wk_def sum_list_replicate)
  have tk: "trace wk = (InsertHistory h, Ok) # map (\<lambda>c. (InsertSales c, Ok)) (chunks xs 0 k)"
    by (simp add: wk_def afterChunks_def t1)
  have i: "k * CHUNK_SIZE < length xs"
    using exists len by simp
  have f: "store (length (trace wk)) = Failed e"
    using fails tk by simp
  have u: "store (length (trace wf)) = store (Suc (Suc k))"
    by (simp add: wf_def tk)
  have loop2: "insertLoop store uuid xs (k * CHUNK_SIZE) (k * CHUNK_SIZE) wk
                 = (case store (Suc (Suc k)) of
                      Thrown m \<Rightarrow> (Throws m, k * CHUNK_SIZE, wu)
                    | _ \<Rightarrow> (Normal (Some resp), k * CHUNK_SIZE, wu))"
    using insertLoop_failed [where store = store and w = wk, OF i f, of uuid "k * CHUNK_SIZE"] u
    by (simp add: Let_def c_def wf_def wu_def resp_def split: outcome.splits)
  have stamp: "map (\<lambda>row. setField row ''upload_batch_id'' (JString uuid)) data = xs"
    by (simp add: xs_def stamped_def)
  have hrec: "\<lparr>h_batch_id = uuid, h_entity = entity, h_file_name = name,
               h_rows_uploaded = length data, h_status = ''processing'',
               h_error_message = None\<rparr> = h"
    by (simp add: h_def processingRecord_def)
  have s0: "store (length (trace w0)) = Ok"
    using hist by (simp add: w0_def)
  have pers: "persist store uuid entity name data errs w0
                = (case store (Suc (Suc k)) of
                     Thrown m \<Rightarrow> (Throws m, uuid, k * CHUNK_SIZE, wu)
                   | _ \<Rightarrow> (Normal resp, uuid, k * CHUNK_SIZE, wu))"
    using s0 loop1 loop2
    by (cases "store (Suc (Suc k))")
       (simp_all add: persist_def Let_def stamp len hrec w1_def [symmetric])
  show ?thesis
    using prep pers
    by (cases "store (Suc (Suc k))")
       (simp_all add: POST_def tryBlock_def w0_def [symmetric] catchBlock_def Let_def
          wu [symmetric] resp_def)
qed

text \<open>
  C2 (as amended). When the insert of chunk \<open>k\<close> returns an error (the history record was
  written and the chunks before \<open>k\<close> were accepted), the handler issues the update of the
  batch to \<^verbatim>\<open>failed\<close> with the error's message, and no insert of rows follows the refused
  one. The counter \<^verbatim>\<open>totalInserted\<close> and the rows in \<^verbatim>\<open>sales_data\<close> are those of the \<open>k\<close>
  chunks before (the response of a failure carries no count, and \<^verbatim>\<open>rows_uploaded\<close> of the
  record stays the number of transformed rows). The result of the update is not checked.
  If the update returns, with or without an error, the handler answers 500 with the
  message of the insert; the record of the batch is then \<^verbatim>\<open>failed\<close> with that message if
  the update succeeded, and is left as it was, in \<^verbatim>\<open>processing\<close>, if the update returned an
  error. If the update throws, the last handler answers 500 with the message of the
  update and issues a second update to \<^verbatim>\<open>failed\<close>, with that message.
\<close>

theorem chunk_failure_aborts:
  fixes e :: db_error
  assumes prep: "prepare p req = Inr (entity, name, data, errs)"
    and hist: "store 0 = Ok"
    and before: "\<forall>j<k. store (Suc j) = Ok"
    and exists: "k * CHUNK_SIZE < length data"
    and fails: "store (Suc k) = Failed e"
  shows "batchIdOf (POST p store uuid req d) = uuid
       \<and> totalInsertedOf (POST p store uuid req d) = k * CHUNK_SIZE
       \<and> take (k + 3) (map fst (trace (runOf (POST p store uuid req d))))
           = InsertHistory (processingRecord uuid entity name (length data))
             # map InsertSales (chunks (stamped uuid data) 0 (Suc k))
             @ [UpdateHistory uuid ''failed'' (Some (err_message e))]
       \<and> list_all (\<lambda>c. \<not> isRowInsert c) (drop (k + 2) (map fst (trace (runOf (POST p store uuid req d)))))
       \<and> sales_data (db (runOf (POST p store uuid req d)))
           = sales_data d @ take (k * CHUNK_SIZE) (stamped uuid data)
       \<and> ((\<forall>m. store (Suc (Suc k)) \<noteq> Thrown m) \<longrightarrow>
            responseOf (POST p store uuid req d)
              = ErrorResponse 500 ''Database insert failed'' (Some (Message (err_message e)))
                  (err_hint e)
            \<and> length (trace (runOf (POST p store uuid req d))) = k + 3)
       \<and> (store (Suc (Suc k)) = Ok \<longrightarrow>
            (processingRecord uuid entity name (length data))
              \<lparr>h_status := ''failed'', h_error_message := Some (err_message e)\<rparr>
            \<in> set (upload_history (db (runOf (POST p store uuid req d)))))
       \<and> ((\<exists>e2. store (Suc (Suc k)) = Failed e2) \<longrightarrow>
            upload_history (db (runOf (POST p store uuid req d)))
              = upload_history d @ [processingRecord uuid entity name (length data)])
       \<and> (store (Suc (Suc k)) = Thrown m \<longrightarrow>
            responseOf (POST p store uuid req d)
              = ErrorResponse 500 ''Internal server error'' (Some (Message m)) None
            \<and> (uuid \<noteq> [] \<longrightarrow>
                 drop (k + 3) (map fst (trace (runOf (POST p store uuid req d))))
                   = [UpdateHistory uuid ''failed'' (Some m)]))"
proof -
  define R where "R = POST p store uuid req d"
  define wu where "wu = refusedRun store uuid entity name data k e d"
  define h where "h = processingRecord uuid entity name (length data)"
  define xs where "xs = stamped uuid data"
  define c where "c = slice xs (k * CHUNK_SIZE) (k * CHUNK_SIZE + CHUNK_SIZE)"
  define upd where "upd = UpdateHistory uuid ''failed'' (Some (err_message e))"
  note run = chunk_failure_run [OF prep hist before exists fails, of uuid d, folded wu_def R_def]
  have tr: "map fst (trace wu) = InsertHistory h # map InsertSales (chunks xs 0 (Suc k)) @ [upd]"
    using refusedRun_trace [OF hist fails, of uuid entity name data d]
    by (simp add: wu_def h_def xs_def upd_def chunks_snoc comp_def del: chunks.simps)
  have ln: "length (trace wu) = k + 3"
    using refusedRun_trace [OF hist fails, of uuid entity name data d] by (simp add: wu_def)
  have dbu: "db wu = (let dk = d\<lparr>upload_history := upload_history d @ [h],
                                sales_data := sales_data d @ take (k * CHUNK_SIZE) xs\<rparr>
                      in if store (Suc (Suc k)) = Ok then applyCall upd dk else dk)"
    unfolding wu_def h_def xs_def upd_def by (rule refusedRun_db [OF hist fails])
  have sd: "sales_data (db wu) = sales_data d @ take (k * CHUNK_SIZE) xs"
    by (simp add: dbu Let_def upd_def)
  have hOk: "store (Suc (Suc k)) = Ok \<longrightarrow>
               h\<lparr>h_status := ''failed'', h_error_message := Some (err_message e)\<rparr>
                 \<in> set (upload_history (db wu))"
    by (simp add: dbu Let_def upd_def h_def processingRecord_def)
  have hFailed: "(\<exists>e2. store (Suc (Suc k)) = Failed e2) \<longrightarrow>
                   upload_history (db wu) = upload_history d @ [h]"
    by (auto simp: dbu Let_def)
  show ?thesis
  proof (cases "store (Suc (Suc k))")
    case Ok
    then have R: "R = (ErrorResponse 500 ''Database insert failed''
                         (Some (Message (err_message e))) (err_hint e), uuid, k * CHUNK_SIZE, wu)"
      using run by simp
    show ?thesis
      unfolding R_def [symmetric] h_def [symmetric] xs_def [symmetric]
      using Ok tr ln sd hOk
      by (simp add: R responseOf_def batchIdOf_def totalInsertedOf_def runOf_def upd_def
            del: chunks.simps)
  next
    case (Failed e2)
    then have R: "R = (ErrorResponse 500 ''Database insert failed''
                         (Some (Message (err_message e))) (err_hint e), uuid, k * CHUNK_SIZE, wu)"
      using run by simp
    show ?thesis
      unfolding R_def [symmetric] h_def [symmetric] xs_def [symmetric]
      using Failed tr ln sd hFailed
      by (simp add: R responseOf_def batchIdOf_def totalInsertedOf_def runOf_def upd_def
            del: chunks.simps)
  next
    case (Thrown m2)
    define wc where "wc = (if uuid \<noteq> []
                           then snd (perform store (UpdateHistory uuid ''failed'' (Some m2)) wu)
                           else wu)"
    have R: "R = (ErrorResponse 500 ''Internal server error'' (Some (Message m2)) None, uuid,
                  k * CHUNK_SIZE, wc)"
      using run Thrown by (simp add: wc_def)
    have trc: "map fst (trace wc)
                 = map fst (trace wu) @ (if uuid \<noteq> [] then [UpdateHistory uuid ''failed'' (Some m2)] else [])"
      by (simp add: wc_def)
    have sdc: "sales_data (db wc) = sales_data (db wu)"
      by (simp add: wc_def)
    have lt: "length (map fst (trace wu)) = k + 3"
      using ln by simp
    have tk: "take (k + 3) (map fst (trace wc)) = map fst (trace wu)"
      using lt by (simp add: trc)
    have dr: "drop (k + 3) (map fst (trace wc))
                = (if uuid \<noteq> [] then [UpdateHistory uuid ''failed'' (Some m2)] else [])"
      using lt by (simp add: trc)
    have d2: "drop (k + 2) (map fst (trace wc))
                = upd # (if uuid \<noteq> [] then [UpdateHistory uuid ''failed'' (Some m2)] else [])"
      using tr by (simp add: trc del: chunks.simps)
    show ?thesis
      unfolding R_def [symmetric] h_def [symmetric] xs_def [symmetric]
      using Thrown tk dr d2 sd sdc tr
      by (simp add: R responseOf_def batchIdOf_def totalInsertedOf_def runOf_def upd_def
            del: chunks.simps)
  qed
qed


theorem chunk_failure_aborts_witness:
  "responseOf (POST utcHost (failingAt 2) ''batch-1''
                (sampleRequest ''USA'' (map Record (replicate 501 sampleRecord))) emptyDatabase)
     = ErrorResponse 500 ''Database insert failed'' (Some (Message ''connection lost'')) None
   \<and> totalInsertedOf (POST utcHost (failingAt 2) ''batch-1''
                (sampleRequest ''USA'' (map Record (replicate 501 sampleRecord))) emptyDatabase)
     = 500
   \<and> length (sales_data (db (runOf (POST utcHost (failingAt 2) ''batch-1''
                (sampleRequest ''USA'' (map Record (replicate 501 sampleRecord))) emptyDatabase))))
     = 500
   \<and> (processingRecord ''batch-1'' ''USA'' ''sales.xlsx'' 501)
         \<lparr>h_status := ''failed'', h_error_message := Some ''connection lost''\<rparr>
       \<in> set (upload_history (db (runOf (POST utcHost (failingAt 2) ''batch-1''
                (sampleRequest ''USA'' (map Record (replicate 501 sampleRecord))) emptyDatabase))))"
proof -
  have h0: "failingAt 2 0 = Ok"
    by (simp add: failingAt_def)
  have h1: "\<forall>j<1. failingAt 2 (Suc j) = Ok"
    by (simp add: failingAt_def)
  have h2: "1 * CHUNK_SIZE < length (map (mappedRow utcHost ''USA'' []) (replicate 501 sampleRecord))"
    by (simp add: CHUNK_SIZE_def)
  have h3: "failingAt 2 (Suc 1) = Failed sampleError"
    by (simp add: failingAt_def)
  have h4: "\<forall>m. failingAt 2 (Suc (Suc 1)) \<noteq> Thrown m"
    by (simp add: failingAt_def)
  have h5: "failingAt 2 (Suc (Suc 1)) = Ok"
    by (simp add: failingAt_def)
  show ?thesis
    using chunk_failure_aborts [OF sample_501 h0 h1 h2 h3, of "''batch-1''" emptyDatabase] h4 h5
    by (simp add: sampleError_def CHUNK_SIZE_def emptyDatabase_def)
qed

text \<open>
  C2 as stated fails when the store is lost from the second chunk on. If the update after
  the refused insert returns an error too, the handler answers 500 with the message of the
  insert, but the record of the batch is left in \<^verbatim>\<open>processing\<close>. If that update throws, the
  response carries the message of the update, not that of the insert.
\<close>

theorem failed_chunk_left_processing_counterexample:
  "responseOf (POST utcHost (failingFrom 2) ''batch-1''
                (sampleRequest ''USA'' (map Record (replicate 501 sampleRecord))) emptyDatabase)
     = ErrorResponse 500 ''Database insert failed'' (Some (Message ''connection lost'')) None
   \<and> map h_status (upload_history (db (runOf (POST utcHost (failingFrom 2) ''batch-1''
                (sampleRequest ''USA'' (map Record (replicate 501 sampleRecord))) emptyDatabase))))
     = [''processing'']
   \<and> responseOf (POST utcHost (throwingAfter 2) ''batch-1''
                (sampleRequest ''USA'' (map Record (replicate 501 sampleRecord))) emptyDatabase)
     = ErrorResponse 500 ''Internal server error'' (Some (Message ''fetch failed'')) None"
proof -
  have len: "1 * CHUNK_SIZE < length (map (mappedRow utcHost ''USA'' []) (replicate 501 sampleRecord))"
    by (simp add: CHUNK_SIZE_def)
  have f0: "failingFrom 2 0 = Ok" and f1: "\<forall>j<1. failingFrom 2 (Suc j) = Ok"
    and f2: "failingFrom 2 (Suc 1) = Failed sampleError"
    and f3: "failingFrom 2 (Suc (Suc 1)) = Failed sampleError"
    by (simp_all add: failingFrom_def)
  have t0: "throwingAfter 2 0 = Ok" and t1: "\<forall>j<1. throwingAfter 2 (Suc j) = Ok"
    and t2: "throwingAfter 2 (Suc 1) = Failed sampleError"
    and t3: "throwingAfter 2 (Suc (Suc 1)) = Thrown ''fetch failed''"
    by (simp_all add: throwingAfter_def)
  note ra = chunk_failure_run [OF sample_501 f0 f1 len f2, of "''batch-1''" emptyDatabase,
              unfolded f3 outcome.case]
  note da = refusedRun_db [OF f0 f2, of "''batch-1''" "''USA''" "''sales.xlsx''"
              "map (mappedRow utcHost ''USA'' []) (replicate 501 sampleRecord)" emptyDatabase,
              unfolded f3]
  have a: "responseOf (POST utcHost (failingFrom 2) ''batch-1''
                (sampleRequest ''USA'' (map Record (replicate 501 sampleRecord))) emptyDatabase)
     = ErrorResponse 500 ''Database insert failed'' (Some (Message ''connection lost'')) None
   \<and> map h_status (upload_history (db (runOf (POST utcHost (failingFrom 2) ''batch-1''
                (sampleRequest ''USA'' (map Record (replicate 501 sampleRecord))) emptyDatabase))))
     = [''processing'']"
    unfolding ra responseOf_def runOf_def snd_conv fst_conv da
    by (simp add: sampleError_def emptyDatabase_def Let_def processingRecord_def)
  note rb = chunk_failure_run [OF sample_501 t0 t1 len t2, of "''batch-1''" emptyDatabase,
              unfolded t3 outcome.case]
  have b: "responseOf (POST utcHost (throwingAfter 2) ''batch-1''
                (sampleRequest ''USA'' (map Record (replicate 501 sampleRecord))) emptyDatabase)
     = ErrorResponse 500 ''Internal server error'' (Some (Message ''fetch failed'')) None"
    unfolding rb responseOf_def by simp
  show ?thesis
    using a b by blast
qed

text \<open>
  When the insert of chunk \<open>k\<close> throws instead of returning an error, the last handler
  issues the update to \<^verbatim>\<open>failed\<close> with the thrown message and answers 500 with it, and no
  further insert is issued.
\<close>

lemma chunk_throw_aborts:
  assumes allocated: "uuid \<noteq> []"
    and prep: "prepare p req = Inr (entity, name, data, errs)"
    and hist: "store 0 = Ok"
    and before: "\<forall>j<k. store (Suc j) = Ok"
    and exists: "k * CHUNK_SIZE < length data"
    and fails: "store (Suc k) = Thrown msg"
  shows "responseOf (POST p store uuid req d)
           = ErrorResponse 500 ''Internal server error'' (Some (Message msg)) None
       \<and> batchIdOf (POST p store uuid req d) = uuid
       \<and> totalInsertedOf (POST p store uuid req d) = k * CHUNK_SIZE
       \<and> map fst (trace (runOf (POST p store uuid req d)))
           = InsertHistory (processingRecord uuid entity name (length data))
             # map InsertSales (chunks (stamped uuid data) 0 (Suc k))
             @ [UpdateHistory uuid ''failed'' (Some msg)]
       \<and> sales_data (db (runOf (POST p store uuid req d)))
           = sales_data d @ take (k * CHUNK_SIZE) (stamped uuid data)
       \<and> (store (Suc (Suc k)) = Ok \<longrightarrow>
            (processingRecord uuid entity name (length data))
              \<lparr>h_status := ''failed'', h_error_message := Some msg\<rparr>
            \<in> set (upload_history (db (runOf (POST p store uuid req d)))))"
proof -
  define xs where "xs = stamped uuid data"
  define h where "h = processingRecord uuid entity name (length data)"
  define w0 where "w0 = \<lparr>db = d, trace = [], progress = []\<rparr>"
  define w1 where "w1 = snd (perform store (InsertHistory h) w0)"
  define wk where "wk = afterChunks xs 0 k 0 w1"
  define c where "c = slice xs (k * CHUNK_SIZE) (k * CHUNK_SIZE + CHUNK_SIZE)"
  define wf where "wf = snd (perform store (InsertSales c) wk)"
  define wu where "wu = snd (perform store (UpdateHistory uuid ''failed'' (Some msg)) wf)"
  define resp where "resp = ErrorResponse 500 ''Internal server error'' (Some (Message msg)) None"
  have len: "length xs = length data"
    by (simp add: xs_def)
  have t1: "trace w1 = [(InsertHistory h, Ok)]"
    using hist by (simp add: w1_def w0_def)
  have a: "\<forall>j<k. store (length (trace w1) + j) = Ok"
    using before t1 by simp
  have b: "\<forall>j<k. 0 + j * CHUNK_SIZE < length xs"
  proof (intro allI impI)
    fix j assume "j < k"
    then have "j * CHUNK_SIZE \<le> k * CHUNK_SIZE" by (simp add: mult_le_mono1)
    then show "0 + j * CHUNK_SIZE < length xs" using exists len by linarith
  qed
  have full: "map length (chunks xs 0 k) = replicate k CHUNK_SIZE"
    using chunks_full [of 0 k xs] exists len by simp
  have loop1: "insertLoop store uuid xs 0 0 w1
                 = insertLoop store uuid xs (k * CHUNK_SIZE) (k * CHUNK_SIZE) wk"
    using insertLoop_ok_steps [OF a b, of uuid 0] full
    by (simp add: wk_def sum_list_replicate)
  have tk: "trace wk = (InsertHistory h, Ok) # map (\<lambda>c. (InsertSales c, Ok)) (chunks xs 0 k)"
    by (simp add: wk_def afterChunks_def t1)
  have i: "k * CHUNK_SIZE < length xs"
    using exists len by simp
  have f: "store (length (trace wk)) = Thrown msg"
    using fails tk by simp
  have u: "store (length (trace wf)) = store (Suc (Suc k))"
    by (simp add: wf_def tk)
  have loop2: "insertLoop store uuid xs (k * CHUNK_SIZE) (k * CHUNK_SIZE) wk
                 = (Throws msg, k * CHUNK_SIZE, wf)"
    using insertLoop_thrown [where store = store and w = wk, OF i f, of uuid "k * CHUNK_SIZE"]
    by (simp add: c_def wf_def)
  have stamp: "map (\<lambda>row. setField row ''upload_batch_id'' (JString uuid)) data = xs"
    by (simp add: xs_def stamped_def)
  have hrec: "\<lparr>h_batch_id = uuid, h_entity = entity, h_file_name = name,
               h_rows_uploaded = length data, h_status = ''processing'',
               h_error_message = None\<rparr> = h"
    by (simp add: h_def processingRecord_def)
  have s0: "store (length (trace w0)) = Ok"
    using hist by (simp add: w0_def)
  have pers: "persist store uuid entity name data errs w0 = (Throws msg, uuid, k * CHUNK_SIZE, wf)"
    using s0 loop1 loop2
    by (simp add: persist_def Let_def stamp len hrec w1_def [symmetric])
  have post: "POST p store uuid req d = (resp, uuid, k * CHUNK_SIZE, wu)"
    using prep pers allocated
    by (simp add: POST_def tryBlock_def w0_def [symmetric] catchBlock_def Let_def wu_def resp_def)
  have tf: "trace wf = trace wk @ [(InsertSales c, Thrown msg)]"
    using f by (simp add: wf_def)
  have tr: "map fst (trace wu) = InsertHistory h # map InsertSales (chunks xs 0 (Suc k))
                                  @ [UpdateHistory uuid ''failed'' (Some msg)]"
    by (simp add: wu_def tf tk chunks_snoc c_def comp_def del: chunks.simps)
  have dk: "db wk = (db w1)\<lparr>sales_data := sales_data (db w1) @ concat (chunks xs 0 k)\<rparr>"
    by (simp add: wk_def afterChunks_def)
  have d1: "db w1 = d\<lparr>upload_history := upload_history d @ [h]\<rparr>"
    using hist by (simp add: w1_def w0_def)
  have df: "db wf = db wk"
    using f by (simp add: wf_def)
  have sd: "sales_data (db wu) = sales_data d @ take (k * CHUNK_SIZE) xs"
    by (simp add: wu_def df dk d1 chunks_concat)
  have hu: "store (Suc (Suc k)) = Ok \<longrightarrow>
              h\<lparr>h_status := ''failed'', h_error_message := Some msg\<rparr>
                \<in> set (upload_history (db wu))"
    using u by (simp add: wu_def df dk d1 h_def processingRecord_def)
  show ?thesis
    using post tr sd hu
    by (simp add: responseOf_def batchIdOf_def totalInsertedOf_def runOf_def resp_def xs_def h_def)
qed

lemma sequential_append:
  "sequential xs i ext \<Longrightarrow> list_all (\<lambda>e. \<not> isRowInsert (fst e)) ys \<Longrightarrow> sequential xs i (ext @ ys)"
proof (induction xs i ext rule: sequential.induct)
  case (1 xs i)
  then show ?case
  proof (induction ys)
    case Nil
    then show ?case by simp
  next
    case (Cons y ys)
    then show ?case by (cases y; cases "fst y") auto
  qed
next
  case (2 xs i c oc rest)
  then show ?case
    by (cases c) (auto split: if_splits)
qed

text \<open>What the part of the handler after the transformation does, for every store.\<close>

lemma persist_shape:
  assumes run: "persist store uuid entity name data errs w0 = (c, b, t, w)"
    and t0: "trace w0 = []" and p0: "progress w0 = []"
  shows "b = uuid
       \<and> (\<exists>ext. trace w = (InsertHistory (processingRecord uuid entity name (length data)), store 0) # ext
                \<and> sequential (stamped uuid data) 0 ext
                \<and> (store 0 \<noteq> Ok \<longrightarrow> ext = []))
       \<and> sorted_wrt (<) (progress w)
       \<and> (store 0 = Ok \<longrightarrow> (\<exists>resp. c = Normal resp) \<longrightarrow>
             (\<exists>st m w1. terminalStatus st \<and> w = snd (perform store (UpdateHistory uuid st m) w1)))"
proof -
  define xs where "xs = stamped uuid data"
  define h where "h = processingRecord uuid entity name (length data)"
  define w1 where "w1 = snd (perform store (InsertHistory h) w0)"
  have stamp: "map (\<lambda>row. setField row ''upload_batch_id'' (JString uuid)) data = xs"
    by (simp add: xs_def stamped_def)
  have hrec: "\<lparr>h_batch_id = uuid, h_entity = entity, h_file_name = name,
               h_rows_uploaded = length data, h_status = ''processing'',
               h_error_message = None\<rparr> = h"
    by (simp add: h_def processingRecord_def)
  have len: "length xs = length data"
    by (simp add: xs_def)
  have t1: "trace w1 = [(InsertHistory h, store 0)]"
    by (simp add: w1_def t0)
  have p1: "progress w1 = []"
    by (simp add: w1_def p0)
  note pdefs = persist_def Let_def stamp len hrec w1_def [symmetric] t0
  show ?thesis
  proof (cases "store 0")
    case (Failed e)
    then have "c = Normal (ErrorResponse 500 ''Database error'' (Some (Message (err_message e))) None)"
      "b = uuid" "w = w1"
      using run by (simp_all add: pdefs)
    then show ?thesis
      using t1 p1 Failed by (simp add: h_def)
  next
    case (Thrown msg)
    then have "c = Throws msg" "b = uuid" "w = w1"
      using run by (simp_all add: pdefs)
    then show ?thesis
      using t1 p1 Thrown by (simp add: h_def)
  next
    case Ok
    obtain r t2 w2 where loop: "insertLoop store uuid xs 0 0 w1 = (r, t2, w2)"
      by (metis prod_cases3)
    obtain ext where ext: "trace w2 = trace w1 @ ext" "sequential xs 0 ext"
      using insertLoop_sequential [OF loop] by blast
    have sorted2: "sorted_wrt (<) (progress w2)"
      using insertLoop_progress [OF loop] p1 by simp
    show ?thesis
    proof (cases r)
      case (Throws msg)
      then have "c = Throws msg" "b = uuid" "w = w2"
        using run Ok loop by (simp_all add: pdefs)
      then show ?thesis
        using ext sorted2 t1 Ok by (auto simp: h_def xs_def)
    next
      case (Normal ro)
      show ?thesis
      proof (cases ro)
        case (Some resp)
        then have res: "c = Normal resp" "b = uuid" "w = w2"
          using run Ok loop Normal by (simp_all add: pdefs)
        obtain wp and e :: db_error
          where "w2 = snd (perform store (UpdateHistory uuid ''failed'' (Some (err_message e))) wp)"
          using insertLoop_response [of store uuid xs 0 0 w1 resp t2 w2] loop Normal Some by blast
        then have "\<exists>st m w1. terminalStatus st \<and> w = snd (perform store (UpdateHistory uuid st m) w1)"
          using res(3) by (auto simp: terminalStatus_def)
        then show ?thesis
          using res ext sorted2 t1 Ok by (auto simp: h_def xs_def)
      next
        case None
        let ?u = "snd (perform store (UpdateHistory uuid ''completed'' None) w2)"
        have w: "w = ?u" and b: "b = uuid"
          using run Ok loop Normal None by (auto simp: pdefs split: outcome.splits)
        have tr: "trace w = (InsertHistory h, store 0) # (ext @ [(UpdateHistory uuid ''completed'' None, store (length (trace w2)))])"
          using w ext t1 by simp
        have sq: "sequential xs 0 (ext @ [(UpdateHistory uuid ''completed'' None, store (length (trace w2)))])"
          using sequential_append [OF ext(2)] by simp
        have fin: "\<exists>st m w1. terminalStatus st \<and> w = snd (perform store (UpdateHistory uuid st m) w1)"
          using w by (auto simp: terminalStatus_def)
        show ?thesis
          using b tr sq fin sorted2 w Ok by (auto simp: h_def xs_def)
      qed
    qed
  qed
qed


lemma POST_rejected:
  "prepare p req = Inl resp
     \<Longrightarrow> POST p store uuid req d = (resp, [], 0, \<lparr>db = d, trace = [], progress = []\<rparr>)"
  by (simp add: POST_def tryBlock_def)

lemma no_row_inserts_history:
  "list_all (\<lambda>e. \<not> isRowInsert (fst e)) tr \<Longrightarrow> historyBeforeRows tr"
  by (induction tr) auto

lemma POST_shape:
  assumes prep: "prepare p req = Inr (entity, name, data, errs)"
  shows "batchIdOf (POST p store uuid req d) = uuid
       \<and> (\<exists>ext. trace (runOf (POST p store uuid req d))
                  = (InsertHistory (processingRecord uuid entity name (length data)), store 0) # ext
                \<and> sequential (stamped uuid data) 0 ext
                \<and> (store 0 \<noteq> Ok \<longrightarrow> list_all (\<lambda>e. \<not> isRowInsert (fst e)) ext))
       \<and> sorted_wrt (<) (progress (runOf (POST p store uuid req d)))
       \<and> (uuid \<noteq> [] \<longrightarrow> (\<forall>e. store 0 \<noteq> Failed e) \<longrightarrow>
             (\<exists>st m w1. terminalStatus st
                \<and> runOf (POST p store uuid req d) = snd (perform store (UpdateHistory uuid st m) w1)))"
proof -
  define w0 where "w0 = \<lparr>db = d, trace = [], progress = []\<rparr>"
  obtain c b t w where run: "persist store uuid entity name data errs w0 = (c, b, t, w)"
    by (metis prod_cases4)
  have shape: "b = uuid
       \<and> (\<exists>ext. trace w = (InsertHistory (processingRecord uuid entity name (length data)), store 0) # ext
                \<and> sequential (stamped uuid data) 0 ext
                \<and> (store 0 \<noteq> Ok \<longrightarrow> ext = []))
       \<and> sorted_wrt (<) (progress w)
       \<and> (store 0 = Ok \<longrightarrow> (\<exists>resp. c = Normal resp) \<longrightarrow>
             (\<exists>st m w1. terminalStatus st \<and> w = snd (perform store (UpdateHistory uuid st m) w1)))"
    by (rule persist_shape [OF run]) (simp_all add: w0_def)
  then obtain ext where ext: "trace w = (InsertHistory (processingRecord uuid entity name (length data)), store 0) # ext"
      "sequential (stamped uuid data) 0 ext" "store 0 \<noteq> Ok \<longrightarrow> ext = []"
    by blast
  show ?thesis
  proof (cases c)
    case (Normal resp)
    then have post: "POST p store uuid req d = (resp, uuid, t, w)"
      using prep run shape by (simp add: POST_def tryBlock_def w0_def)
    have "store 0 \<noteq> Thrown msg" for msg
    proof
      assume th: "store 0 = Thrown msg"
      have "persist store uuid entity name data errs w0
              = (Throws msg, uuid, 0, snd (perform store (InsertHistory
                   \<lparr>h_batch_id = uuid, h_entity = entity, h_file_name = name,
                     h_rows_uploaded = length data, h_status = ''processing'',
                     h_error_message = None\<rparr>) w0))"
        using th by (simp add: persist_def Let_def w0_def)
      then show False using run Normal by simp
    qed
    then have "(\<forall>e. store 0 \<noteq> Failed e) \<longrightarrow> store 0 = Ok"
      by (cases "store 0") auto
    then show ?thesis
      using post shape ext Normal by (auto simp: batchIdOf_def runOf_def)
  next
    case (Throws msg)
    let ?wc = "if uuid \<noteq> [] then snd (perform store (UpdateHistory uuid ''failed'' (Some msg)) w) else w"
    have post: "POST p store uuid req d
                  = (ErrorResponse 500 ''Internal server error'' (Some (Message msg)) None, uuid, t, ?wc)"
      using prep run shape Throws
      by (simp add: POST_def tryBlock_def w0_def catchBlock_def Let_def)
    have tr: "trace ?wc = (InsertHistory (processingRecord uuid entity name (length data)), store 0)
                # (ext @ (if uuid \<noteq> [] then [(UpdateHistory uuid ''failed'' (Some msg), store (length (trace w)))] else []))"
      using ext(1) by simp
    have sq: "sequential (stamped uuid data) 0
                (ext @ (if uuid \<noteq> [] then [(UpdateHistory uuid ''failed'' (Some msg), store (length (trace w)))] else []))"
      using sequential_append [OF ext(2)] by simp
    have nr: "store 0 \<noteq> Ok \<longrightarrow> list_all (\<lambda>e. \<not> isRowInsert (fst e))
                (ext @ (if uuid \<noteq> [] then [(UpdateHistory uuid ''failed'' (Some msg), store (length (trace w)))] else []))"
      using ext(3) by simp
    have so: "sorted_wrt (<) (progress ?wc)"
      using shape by simp
    have fin: "uuid \<noteq> [] \<longrightarrow> (\<exists>st m w1. terminalStatus st \<and> ?wc = snd (perform store (UpdateHistory uuid st m) w1))"
      by (auto simp: terminalStatus_def)
    show ?thesis
      unfolding post batchIdOf_def runOf_def
      using tr sq nr so fin by (simp del: perform_trace perform_progress)
  qed
qed

lemma all_chunks_accepted:
  assumes prep: "prepare p req = Inr (entity, name, data, errs)"
    and oks: "\<forall>j\<le>n. store j = Ok"
    and exist: "\<forall>j<n. j * CHUNK_SIZE < length data"
    and fits: "length data \<le> n * CHUNK_SIZE"
    and returns: "\<forall>m. store (Suc n) \<noteq> Thrown m"
  shows "POST p store uuid req d
     = (SuccessResponse uuid (sum_list (map length (chunks (stamped uuid data) 0 n))) (length errs)
          entity name,
        uuid, sum_list (map length (chunks (stamped uuid data) 0 n)),
        snd (perform store (UpdateHistory uuid ''completed'' None)
          (afterChunks (stamped uuid data) 0 n 0
             \<lparr>db = d\<lparr>upload_history :=
                        upload_history d @ [processingRecord uuid entity name (length data)]\<rparr>,
               trace = [(InsertHistory (processingRecord uuid entity name (length data)), Ok)],
               progress = []\<rparr>)))"
proof -
  define xs where "xs = stamped uuid data"
  define h where "h = processingRecord uuid entity name (length data)"
  define w0 where "w0 = \<lparr>db = d, trace = [], progress = []\<rparr>"
  define w1 where "w1 = snd (perform store (InsertHistory h) w0)"
  define wn where "wn = afterChunks xs 0 n 0 w1"
  define total where "total = sum_list (map length (chunks xs 0 n))"
  have len: "length xs = length data"
    by (simp add: xs_def)
  have hist: "store 0 = Ok"
    using oks by simp
  have w1: "w1 = \<lparr>db = d\<lparr>upload_history := upload_history d @ [h]\<rparr>,
                  trace = [(InsertHistory h, Ok)], progress = []\<rparr>"
    using hist by (simp add: w1_def w0_def perform_def Let_def)
  have a: "\<forall>j<n. store (length (trace w1) + j) = Ok"
    using oks by (simp add: w1)
  have b: "\<forall>j<n. 0 + j * CHUNK_SIZE < length xs"
    using exist len by simp
  have loop1: "insertLoop store uuid xs 0 0 w1 = insertLoop store uuid xs (n * CHUNK_SIZE) total wn"
    using insertLoop_ok_steps [OF a b, of uuid 0] by (simp add: wn_def total_def)
  have loop2: "insertLoop store uuid xs (n * CHUNK_SIZE) total wn = (Normal None, total, wn)"
    by (rule insertLoop_done) (use fits len in simp)
  have tn: "length (trace wn) = Suc n"
    by (simp add: wn_def afterChunks_def w1)
  have stamp: "map (\<lambda>row. setField row ''upload_batch_id'' (JString uuid)) data = xs"
    by (simp add: xs_def stamped_def)
  have hrec: "\<lparr>h_batch_id = uuid, h_entity = entity, h_file_name = name,
               h_rows_uploaded = length data, h_status = ''processing'',
               h_error_message = None\<rparr> = h"
    by (simp add: h_def processingRecord_def)
  have s0: "store (length (trace w0)) = Ok"
    using hist by (simp add: w0_def)
  have pers: "persist store uuid entity name data errs w0
                = (Normal (SuccessResponse uuid total (length errs) entity name), uuid, total,
                   snd (perform store (UpdateHistory uuid ''completed'' None) wn))"
    using s0 loop1 loop2 returns tn
    by (simp add: persist_def Let_def stamp len hrec w1_def [symmetric] split: outcome.splits)
  show ?thesis
    using prep pers
    by (simp add: POST_def tryBlock_def w0_def [symmetric] wn_def w1 total_def xs_def h_def)
qed

lemma sample_run:
  assumes "store 0 = Ok" and "store 1 = Ok" and "\<forall>m. store 2 \<noteq> Thrown m"
  shows "POST utcHost store ''batch-1'' (sampleRequest ''USA'' (map Record [sampleRecord])) emptyDatabase
     = (SuccessResponse ''batch-1'' 1 0 ''USA'' ''sales.xlsx'', ''batch-1'', 1,
        snd (perform store (UpdateHistory ''batch-1'' ''completed'' None)
          \<lparr>db = \<lparr>upload_history = [processingRecord ''batch-1'' ''USA'' ''sales.xlsx'' 1],
                  sales_data = stamped ''batch-1'' [mappedRow utcHost ''USA'' [] sampleRecord]\<rparr>,
            trace = [(InsertHistory (processingRecord ''batch-1'' ''USA'' ''sales.xlsx'' 1), Ok),
                     (InsertSales (stamped ''batch-1'' [mappedRow utcHost ''USA'' [] sampleRecord]), Ok)],
            progress = [1]\<rparr>))"
proof -
  have prep: "prepare utcHost (sampleRequest ''USA'' (map Record [sampleRecord]))
                = Inr (''USA'', ''sales.xlsx'', map (mappedRow utcHost ''USA'' []) [sampleRecord], [])"
    by (rule prepare_sample) (simp_all add: validEntities_def)
  have oks: "\<forall>j\<le>1. store j = Ok"
    using assms(1,2) by (auto simp: le_Suc_eq)
  have ex: "\<forall>j<1. j * CHUNK_SIZE < length (map (mappedRow utcHost ''USA'' []) [sampleRecord])"
    by simp
  have dn: "length (map (mappedRow utcHost ''USA'' []) [sampleRecord]) \<le> 1 * CHUNK_SIZE"
    by (simp add: CHUNK_SIZE_def)
  have rt: "\<forall>m. store (Suc 1) \<noteq> Thrown m"
    using assms(3) by (simp add: numeral_2_eq_2)
  show ?thesis
    using all_chunks_accepted [OF prep oks ex dn rt, of "''batch-1''" emptyDatabase]
    by (simp add: afterChunks_def stamped_def slice_def CHUNK_SIZE_def emptyDatabase_def)
qed

text \<open>
  C3 (as amended). In every request handled by \<^verbatim>\<open>route.ts\<close>, whatever the store does, no
  insert of rows is issued before the history record of the batch has been written in
  state \<^verbatim>\<open>processing\<close>; that insert is the first call of the handler, and it is issued only
  when the validation, the reading of the sheet and the transformation have passed. (The
  handler of \<^verbatim>\<open>part_000\<close> writes its history record after the inserts of rows, in state
  \<^verbatim>\<open>success\<close> or \<^verbatim>\<open>partial\<close>.)
\<close>

theorem history_before_rows:
  "historyBeforeRows (trace (runOf (POST p store uuid req d)))
   \<and> (trace (runOf (POST p store uuid req d)) \<noteq> [] \<longrightarrow>
        (\<exists>entity name data errs. prepare p req = Inr (entity, name, data, errs)
           \<and> fst (hd (trace (runOf (POST p store uuid req d))))
               = InsertHistory (processingRecord uuid entity name (length data))))"
proof (cases "prepare p req")
  case (Inl resp)
  then show ?thesis
    by (simp add: POST_rejected runOf_def)
next
  case (Inr x)
  then obtain entity name data errs where prep: "prepare p req = Inr (entity, name, data, errs)"
    by (metis prod_cases4)
  from POST_shape [OF prep, of store uuid d]
  obtain ext where ext: "trace (runOf (POST p store uuid req d))
                  = (InsertHistory (processingRecord uuid entity name (length data)), store 0) # ext"
      "store 0 \<noteq> Ok \<longrightarrow> list_all (\<lambda>e. \<not> isRowInsert (fst e)) ext"
    by blast
  have "historyBeforeRows ((InsertHistory (processingRecord uuid entity name (length data)), store 0) # ext)"
    using ext(2) no_row_inserts_history [of ext] by (simp add: processingRecord_def)
  then show ?thesis
    using ext(1) prep by simp
qed

theorem history_before_rows_witness:
  "historyBeforeRows (trace (runOf (POST utcHost reliable ''batch-1''
       (sampleRequest ''USA'' (map Record [sampleRecord])) emptyDatabase)))
   \<and> map fst (trace (runOf (POST utcHost reliable ''batch-1''
       (sampleRequest ''USA'' (map Record [sampleRecord])) emptyDatabase)))
     = [InsertHistory (processingRecord ''batch-1'' ''USA'' ''sales.xlsx'' 1),
        InsertSales (stamped ''batch-1'' [mappedRow utcHost ''USA'' [] sampleRecord]),
        UpdateHistory ''batch-1'' ''completed'' None]"
proof -
  have "historyBeforeRows (trace (runOf (POST utcHost reliable ''batch-1''
       (sampleRequest ''USA'' (map Record [sampleRecord])) emptyDatabase)))"
    using history_before_rows [where p = utcHost and store = reliable and uuid = "''batch-1''"
          and req = "sampleRequest ''USA'' (map Record [sampleRecord])" and d = emptyDatabase]
    by (rule conjunct1)
  moreover have "map fst (trace (runOf (POST utcHost reliable ''batch-1''
       (sampleRequest ''USA'' (map Record [sampleRecord])) emptyDatabase)))
     = [InsertHistory (processingRecord ''batch-1'' ''USA'' ''sales.xlsx'' 1),
        InsertSales (stamped ''batch-1'' [mappedRow utcHost ''USA'' [] sampleRecord]),
        UpdateHistory ''batch-1'' ''completed'' None]"
    using sample_run [of reliable] by (simp add: runOf_def reliable_def)
  ultimately show ?thesis
    by (rule conjI)
qed

text \<open>
  C3 as stated fails on the handler of \<^verbatim>\<open>part_000\<close>: on one row and a store that accepts
  every call, it inserts the row first and writes the history record afterwards, with
  status \<^verbatim>\<open>success\<close>; no record in state \<^verbatim>\<open>processing\<close> is ever written.
\<close>

theorem history_after_rows_part000_counterexample:
  "map fst (trace (snd (persist_part000 reliable ''batch-1'' ''USA'' ''sales.xlsx''
                          [mappedRow utcHost ''USA'' ''batch-1'' sampleRecord] freshRun)))
     = [InsertSales [mappedRow utcHost ''USA'' ''batch-1'' sampleRecord],
        InsertHistory \<lparr>h_batch_id = ''batch-1'', h_entity = ''USA'', h_file_name = ''sales.xlsx'',
                        h_rows_uploaded = 1, h_status = ''success'', h_error_message = None\<rparr>]
   \<and> \<not> historyBeforeRows (trace (snd (persist_part000 reliable ''batch-1'' ''USA'' ''sales.xlsx''
                          [mappedRow utcHost ''USA'' ''batch-1'' sampleRecord] freshRun)))"
  by (simp add: persist_part000_def Let_def reliable_def freshRun_def)

lemma update_marks:
  assumes "h \<in> set (upload_history (applyCall (UpdateHistory b st m) d))" and "h_batch_id h = b"
  shows "h_status h = st"
proof -
  let ?f = "\<lambda>h. if h_batch_id h = b
                 then h\<lparr>h_status := st,
                        h_error_message := (case m of None \<Rightarrow> h_error_message h | Some x \<Rightarrow> Some x)\<rparr>
                 else h"
  have "h \<in> ?f ` set (upload_history d)"
    using assms(1) by simp
  then obtain h0 where h: "h = ?f h0"
    by (rule imageE)
  show ?thesis
  proof (cases "h_batch_id h0 = b")
    case True
    then show ?thesis using h by simp
  next
    case False
    then have "h = h0" using h by simp
    then show ?thesis using False assms(2) by simp
  qed
qed

lemma ends_with_update:
  assumes "w = snd (perform store (UpdateHistory b st m) w1)"
  shows "trace w \<noteq> [] \<and> fst (last (trace w)) = UpdateHistory b st m
       \<and> (snd (last (trace w)) = Ok \<longrightarrow>
            (\<forall>h\<in>set (upload_history (db w)). h_batch_id h = b \<longrightarrow> h_status h = st))"
proof -
  have tr: "trace w = trace w1 @ [(UpdateHistory b st m, store (length (trace w1)))]"
    using assms by simp
  have "store (length (trace w1)) = Ok \<Longrightarrow> db w = applyCall (UpdateHistory b st m) (db w1)"
    using assms by simp
  then have "snd (last (trace w)) = Ok \<longrightarrow>
            (\<forall>h\<in>set (upload_history (db w)). h_batch_id h = b \<longrightarrow> h_status h = st)"
    using tr update_marks [of _ b st m "db w1"] by (simp del: applyCall.simps)
  then show ?thesis
    using tr by simp
qed

text \<open>
  C7 (as amended). Once the batch identifier is allocated and unless the insert of the
  history record itself returns an error (then no record exists and the handler answers
  500 at once), the last call of every run is an update of the batch to a terminal status:
  \<^verbatim>\<open>completed\<close> after the last chunk, \<^verbatim>\<open>failed\<close> after a failed chunk, and \<^verbatim>\<open>failed\<close> from the
  last handler when any call has thrown. The update is attempted, not checked: when it
  succeeds, no record of the batch is left in \<^verbatim>\<open>processing\<close>.
\<close>

theorem terminal_update_attempted:
  assumes "uuid \<noteq> []"
    and "prepare p req = Inr (entity, name, data, errs)"
    and "\<forall>e. store 0 \<noteq> Failed e"
  shows "trace (runOf (POST p store uuid req d)) \<noteq> []
       \<and> isTerminalUpdate uuid (fst (last (trace (runOf (POST p store uuid req d)))))
       \<and> (snd (last (trace (runOf (POST p store uuid req d)))) = Ok \<longrightarrow>
            (\<forall>h\<in>set (upload_history (db (runOf (POST p store uuid req d)))).
               h_batch_id h = uuid \<longrightarrow> terminalStatus (h_status h)))"
proof -
  from POST_shape [OF assms(2), of store uuid d] assms(1,3)
  obtain st m w1 where t: "terminalStatus st"
    and r: "runOf (POST p store uuid req d) = snd (perform store (UpdateHistory uuid st m) w1)"
    by blast
  have e: "trace (runOf (POST p store uuid req d)) \<noteq> []
       \<and> fst (last (trace (runOf (POST p store uuid req d)))) = UpdateHistory uuid st m
       \<and> (snd (last (trace (runOf (POST p store uuid req d)))) = Ok \<longrightarrow>
            (\<forall>h\<in>set (upload_history (db (runOf (POST p store uuid req d)))).
               h_batch_id h = uuid \<longrightarrow> h_status h = st))"
    by (rule ends_with_update [OF r])
  then have "isTerminalUpdate uuid (fst (last (trace (runOf (POST p store uuid req d)))))"
    using t by simp
  then show ?thesis
    using e t by blast
qed

theorem terminal_update_attempted_witness:
  "isTerminalUpdate ''batch-1'' (fst (last (trace (runOf (POST utcHost reliable ''batch-1''
       (sampleRequest ''USA'' (map Record [sampleRecord])) emptyDatabase)))))
   \<and> map h_status (upload_history (db (runOf (POST utcHost reliable ''batch-1''
       (sampleRequest ''USA'' (map Record [sampleRecord])) emptyDatabase))))
     = [''completed'']"
proof -
  have prep: "prepare utcHost (sampleRequest ''USA'' (map Record [sampleRecord]))
                = Inr (''USA'', ''sales.xlsx'', map (mappedRow utcHost ''USA'' []) [sampleRecord], [])"
    by (rule prepare_sample) (simp_all add: validEntities_def)
  have u: "''batch-1'' \<noteq> []"
    by simp
  have s: "\<forall>e. reliable 0 \<noteq> Failed e"
    by (simp add: reliable_def)
  show ?thesis
    using terminal_update_attempted [where store = reliable, OF u prep s, of emptyDatabase]
          sample_run [of reliable]
    by (simp add: runOf_def reliable_def processingRecord_def)
qed

text \<open>
  C7 as stated fails when the update itself returns an error: here the row is inserted,
  the update to \<^verbatim>\<open>completed\<close> fails, the handler answers with success, and the record of
  the batch is left in \<^verbatim>\<open>processing\<close>.
\<close>

theorem record_left_processing_counterexample:
  "responseOf (POST utcHost (failingAt 2) ''batch-1''
       (sampleRequest ''USA'' (map Record [sampleRecord])) emptyDatabase)
     = SuccessResponse ''batch-1'' 1 0 ''USA'' ''sales.xlsx''
   \<and> map h_status (upload_history (db (runOf (POST utcHost (failingAt 2) ''batch-1''
       (sampleRequest ''USA'' (map Record [sampleRecord])) emptyDatabase))))
     = [''processing'']"
  using sample_run [of "failingAt 2"]
  by (simp add: runOf_def responseOf_def failingAt_def processingRecord_def)

lemma chunks_1200:
  "length xs = 1200
     \<Longrightarrow> chunks xs 0 3 = [take 500 xs, take 500 (drop 500 xs), drop 1000 xs]"
  by (simp add: numeral_3_eq_3 slice_def CHUNK_SIZE_def)

text \<open>
  C8. For 1,200 transformed rows, whatever the store does, the inserts of rows in the run
  are the chunks of 500 in their order, a further chunk being issued only when the insert
  before it has returned with success, and the progress counter increases strictly. When
  the store accepts the history record and the inserts (and the final update returns),
  there are exactly three inserts, of 500, 500 and 200 rows, the counter goes through
  500, 1000, 1200, and the response reports 1200 rows.
\<close>

theorem chunks_of_1200:
  assumes prep: "prepare p req = Inr (entity, name, data, errs)"
    and len: "length data = 1200"
  shows "sequential (stamped uuid data) 0 (trace (runOf (POST p store uuid req d)))
       \<and> sorted_wrt (<) (progress (runOf (POST p store uuid req d)))
       \<and> ((\<forall>j\<le>3. store j = Ok) \<and> (\<forall>m. store 4 \<noteq> Thrown m) \<longrightarrow>
            map fst (trace (runOf (POST p store uuid req d)))
              = [InsertHistory (processingRecord uuid entity name 1200),
                 InsertSales (take 500 (stamped uuid data)),
                 InsertSales (take 500 (drop 500 (stamped uuid data))),
                 InsertSales (drop 1000 (stamped uuid data)),
                 UpdateHistory uuid ''completed'' None]
          \<and> map length [take 500 (stamped uuid data), take 500 (drop 500 (stamped uuid data)),
                         drop 1000 (stamped uuid data)] = [500, 500, 200]
          \<and> progress (runOf (POST p store uuid req d)) = [500, 1000, 1200]
          \<and> responseOf (POST p store uuid req d)
              = SuccessResponse uuid 1200 (length errs) entity name)"
proof -
  from POST_shape [OF prep, of store uuid d]
  obtain ext where ext: "trace (runOf (POST p store uuid req d))
                  = (InsertHistory (processingRecord uuid entity name (length data)), store 0) # ext"
      "sequential (stamped uuid data) 0 ext"
    and so: "sorted_wrt (<) (progress (runOf (POST p store uuid req d)))"
    by blast
  have sq: "sequential (stamped uuid data) 0 (trace (runOf (POST p store uuid req d)))"
    using ext by simp
  have lx: "length (stamped uuid data) = 1200"
    using len by simp
  have ch: "chunks (stamped uuid data) 0 3
              = [take 500 (stamped uuid data), take 500 (drop 500 (stamped uuid data)),
                 drop 1000 (stamped uuid data)]"
    by (rule chunks_1200 [OF lx])
  have explicit: "map fst (trace (runOf (POST p store uuid req d)))
              = [InsertHistory (processingRecord uuid entity name 1200),
                 InsertSales (take 500 (stamped uuid data)),
                 InsertSales (take 500 (drop 500 (stamped uuid data))),
                 InsertSales (drop 1000 (stamped uuid data)),
                 UpdateHistory uuid ''completed'' None]
          \<and> map length [take 500 (stamped uuid data), take 500 (drop 500 (stamped uuid data)),
                         drop 1000 (stamped uuid data)] = [500, 500, 200]
          \<and> progress (runOf (POST p store uuid req d)) = [500, 1000, 1200]
          \<and> responseOf (POST p store uuid req d)
              = SuccessResponse uuid 1200 (length errs) entity name"
    if oks: "\<forall>j\<le>3. store j = Ok" and rt: "\<forall>m. store 4 \<noteq> Thrown m"
  proof -
    have ex: "\<forall>j<3. j * CHUNK_SIZE < length data"
    proof (intro allI impI)
      fix j :: nat assume "j < 3"
      then have "j * CHUNK_SIZE \<le> 2 * CHUNK_SIZE"
        by (simp add: mult_le_mono1)
      then show "j * CHUNK_SIZE < length data"
        using len by (simp add: CHUNK_SIZE_def)
    qed
    have ft: "length data \<le> 3 * CHUNK_SIZE"
      using len by (simp add: CHUNK_SIZE_def)
    have rt': "\<forall>m. store (Suc 3) \<noteq> Thrown m"
      using rt by (simp add: eval_nat_numeral)
    show ?thesis
      using all_chunks_accepted [OF prep oks ex ft rt', of uuid d] lx
      by (simp add: ch afterChunks_def runOf_def responseOf_def len)
  qed
  show ?thesis
    using sq so explicit by blast
qed

theorem chunks_of_1200_witness:
  "progress (runOf (POST utcHost reliable ''batch-1''
       (sampleRequest ''USA'' (map Record (replicate 1200 sampleRecord))) emptyDatabase))
     = [500, 1000, 1200]
   \<and> responseOf (POST utcHost reliable ''batch-1''
       (sampleRequest ''USA'' (map Record (replicate 1200 sampleRecord))) emptyDatabase)
     = SuccessResponse ''batch-1'' 1200 0 ''USA'' ''sales.xlsx''"
proof -
  have prep: "prepare utcHost (sampleRequest ''USA'' (map Record (replicate 1200 sampleRecord)))
                = Inr (''USA'', ''sales.xlsx'',
                       map (mappedRow utcHost ''USA'' []) (replicate 1200 sampleRecord), [])"
    by (rule prepare_sample) (simp_all add: validEntities_def)
  have len: "length (map (mappedRow utcHost ''USA'' []) (replicate 1200 sampleRecord)) = 1200"
    by simp
  show ?thesis
    using chunks_of_1200 [OF prep len, of "''batch-1''" reliable emptyDatabase]
    by (simp add: reliable_def)
qed

end
